theory Spec2Isabelle
  imports Complex_Main "HOL-Library.Sublist"
begin

section \<open>The request router of src/index.ts\<close>

text \<open>
  The worker answers one request at a time and keeps no state of its own, so the
  class \<open>BrowserRequestHandler\<close> is embedded as functions of the request, the
  environment bindings and the answers of the container. What the platform
  computes (headers lookup, \<open>URLSearchParams\<close>, \<open>String.prototype.replace\<close>,
  the \<open>Response\<close> constructor) is written out; what it parses (JSON text, URL
  text) is taken as a parameter. Strings are byte lists.
\<close>

subsection \<open>Strings\<close>

text \<open>ASCII lower-casing, as the \<open>Headers\<close> class applies it to header names.\<close>

definition lower_char :: "char \<Rightarrow> char" where
  "lower_char c =
     (if c = CHR ''A'' then CHR ''a'' else if c = CHR ''B'' then CHR ''b''
      else if c = CHR ''C'' then CHR ''c'' else if c = CHR ''D'' then CHR ''d''
      else if c = CHR ''E'' then CHR ''e'' else if c = CHR ''F'' then CHR ''f''
      else if c = CHR ''G'' then CHR ''g'' else if c = CHR ''H'' then CHR ''h''
      else if c = CHR ''I'' then CHR ''i'' else if c = CHR ''J'' then CHR ''j''
      else if c = CHR ''K'' then CHR ''k'' else if c = CHR ''L'' then CHR ''l''
      else if c = CHR ''M'' then CHR ''m'' else if c = CHR ''N'' then CHR ''n''
      else if c = CHR ''O'' then CHR ''o'' else if c = CHR ''P'' then CHR ''p''
      else if c = CHR ''Q'' then CHR ''q'' else if c = CHR ''R'' then CHR ''r''
      else if c = CHR ''S'' then CHR ''s'' else if c = CHR ''T'' then CHR ''t''
      else if c = CHR ''U'' then CHR ''u'' else if c = CHR ''V'' then CHR ''v''
      else if c = CHR ''W'' then CHR ''w'' else if c = CHR ''X'' then CHR ''x''
      else if c = CHR ''Y'' then CHR ''y'' else if c = CHR ''Z'' then CHR ''z''
      else c)"

definition lower :: "string \<Rightarrow> string" where
  "lower s = map lower_char s"

text \<open>\<open>s.startsWith(p)\<close> and \<open>s.includes(p)\<close>.\<close>

fun startsWith :: "string \<Rightarrow> string \<Rightarrow> bool" where
  "startsWith s [] = True"
| "startsWith [] (p # ps) = False"
| "startsWith (c # cs) (p # ps) = (c = p \<and> startsWith cs ps)"

fun str_includes :: "string \<Rightarrow> string \<Rightarrow> bool" where
  "str_includes [] p = (p = [])"
| "str_includes (c # cs) p = (startsWith (c # cs) p \<or> str_includes cs p)"

text \<open>\<open>parts.join(sep)\<close>.\<close>

fun join :: "string \<Rightarrow> string list \<Rightarrow> string" where
  "join sep [] = []"
| "join sep [x] = x"
| "join sep (x # y # ys) = x @ sep @ join sep (y # ys)"

subsection \<open>Headers and query parameters\<close>

text \<open>
  A \<open>Headers\<close> object is the list of its (name, value) entries. Names compare
  without regard to ASCII case, and \<open>get\<close> joins the values of a repeated name
  with a comma and a space; the result \<open>null\<close> is \<open>None\<close>.
\<close>

type_synonym headers = "(string \<times> string) list"

definition headers_get :: "headers \<Rightarrow> string \<Rightarrow> string option" where
  "headers_get hs name =
     (let vs = map snd (filter (\<lambda>e. lower (fst e) = lower name) hs)
      in if vs = [] then None else Some (join '', '' vs))"

definition headers_has :: "headers \<Rightarrow> string \<Rightarrow> bool" where
  "headers_has hs name = (filter (\<lambda>e. lower (fst e) = lower name) hs \<noteq> [])"

definition headers_delete :: "headers \<Rightarrow> string \<Rightarrow> headers" where
  "headers_delete hs name = filter (\<lambda>e. lower (fst e) \<noteq> lower name) hs"

text \<open>
  A \<open>URLSearchParams\<close> object is the list of its decoded (name, value) pairs;
  \<open>get\<close> returns the value of the first pair of that name.
\<close>

type_synonym params = "(string \<times> string) list"

definition searchParams_get :: "params \<Rightarrow> string \<Rightarrow> string option" where
  "searchParams_get ps name = map_of ps name"

fun searchParams_set :: "params \<Rightarrow> string \<Rightarrow> string \<Rightarrow> params" where
  "searchParams_set [] name v = [(name, v)]"
| "searchParams_set (e # ps) name v =
     (if fst e = name then (name, v) # filter (\<lambda>e'. fst e' \<noteq> name) ps
      else e # searchParams_set ps name v)"

subsection \<open>URLs\<close>

text \<open>
  A parsed URL, with the fields of the URL record of the URL standard: the scheme
  followed by its colon, the credentials, the serialised host with its port
  (\<open>None\<close> for a URL without host), the serialised path, the query and the
  fragment (\<open>None\<close> when the URL has none), and the list behind \<open>searchParams\<close>.
\<close>

record url =
  protocol :: string
  username :: string
  password :: string
  url_host :: "string option"
  pathname :: string
  query :: "string option"
  searchParams :: params
  fragment :: "string option"

text \<open>The getters \<open>url.host\<close> and \<open>url.search\<close>.\<close>

definition host :: "url \<Rightarrow> string" where
  "host u = (case url_host u of None \<Rightarrow> [] | Some h \<Rightarrow> h)"

definition search :: "url \<Rightarrow> string" where
  "search u = (case query u of None \<Rightarrow> [] | Some q \<Rightarrow> if q = [] then [] else CHR ''?'' # q)"

subsection \<open>Requests and session identity\<close>

record request =
  http_method :: string
  headers :: headers
  url :: url
  body :: "string option"

text \<open>JavaScript truthiness of a \<open>string | null\<close> (or \<open>string | undefined\<close>) value.\<close>

definition truthy :: "string option \<Rightarrow> bool" where
  "truthy v = (case v of None \<Rightarrow> False | Some s \<Rightarrow> s \<noteq> [])"

text \<open>The operator \<open>a || b\<close> on such values.\<close>

definition js_or :: "string option \<Rightarrow> string option \<Rightarrow> string option" where
  "js_or a b = (if truthy a then a else b)"

definition extractSessionId :: "request \<Rightarrow> string option" where
  "extractSessionId req =
     js_or (headers_get (headers req) ''X-Session-ID'')
           (searchParams_get (searchParams (url req)) ''sessionId'')"

definition isJsonVersionRequest :: "url \<Rightarrow> bool" where
  "isJsonVersionRequest u =
     (pathname u = ''/json/version'' \<or> pathname u = ''/json/version/'')"

record auth_result =
  isAuthenticated :: bool
  message :: string

subsection \<open>Replacing the loopback address\<close>

text \<open>
  \<open>text.replace(/127\.0\.0\.1:3000/g, host)\<close>. The pattern has no capture group, so
  it matches exactly the literal text \<open>127.0.0.1:3000\<close>; the replacement is a
  string, in which \<open>replace\<close> expands the patterns \<open>$$\<close>, \<open>$&\<close>, \<open>$`\<close> and \<open>$'\<close>
  (\<open>GetSubstitution\<close> of ECMA-262) and copies everything else.
\<close>

definition loopback :: string where
  "loopback = ''127.0.0.1:3000''"

fun GetSubstitution :: "string \<Rightarrow> string \<Rightarrow> string \<Rightarrow> string \<Rightarrow> string" where
  "GetSubstitution matched before after [] = []"
| "GetSubstitution matched before after [c] = [c]"
| "GetSubstitution matched before after (c # d # r) =
     (if c = CHR ''$'' then
        (if d = CHR ''$'' then CHR ''$'' # GetSubstitution matched before after r
         else if d = CHR ''&'' then matched @ GetSubstitution matched before after r
         else if d = CHR 0x60 then before @ GetSubstitution matched before after r
         else if d = CHR 0x27 then after @ GetSubstitution matched before after r
         else c # GetSubstitution matched before after (d # r))
      else c # GetSubstitution matched before after (d # r))"

text \<open>
  The global replacement scans from the left; \<open>before\<close> is the part of the
  subject already passed, which \<open>$`\<close> refers to.
\<close>

function replace_from :: "string \<Rightarrow> string \<Rightarrow> string \<Rightarrow> string" where
  "replace_from rep before s =
     (if startsWith s loopback then
        GetSubstitution loopback before (drop (length loopback) s) rep
          @ replace_from rep (before @ loopback) (drop (length loopback) s)
      else case s of [] \<Rightarrow> [] | c # t \<Rightarrow> c # replace_from rep (before @ [c]) t)"
  by pat_completeness auto
termination
proof (relation "measure (\<lambda>(rep, before, s). length s)")
  show "wf (measure (\<lambda>(rep, before, s). length s))"
    by simp
next
  fix rep before s :: string
  assume "startsWith s loopback"
  then have "s \<noteq> []"
    by (cases s) (simp_all add: loopback_def)
  then show "((rep, before @ loopback, drop (length loopback) s), (rep, before, s))
               \<in> measure (\<lambda>(rep, before, s). length s)"
    by (simp add: loopback_def)
next
  fix rep before s :: string and c :: char and t :: string
  assume "s = c # t"
  then show "((rep, before @ [c], t), (rep, before, s)) \<in> measure (\<lambda>(rep, before, s). length s)"
    by simp
qed

declare replace_from.simps [simp del]

definition rewriteHost :: "url \<Rightarrow> string \<Rightarrow> string" where
  "rewriteHost u text = replace_from (host u) [] text"

subsection \<open>Serialising a URL\<close>

text \<open>
  The \<open>application/x-www-form-urlencoded\<close> serialiser, which \<open>searchParams.set\<close>
  runs to write the list back into the query of its URL.
\<close>

definition urlencoded_safe :: "char \<Rightarrow> bool" where
  "urlencoded_safe c =
     (c \<in> set ''*-._0123456789ABCDEFGHIJKLMNOPQRSTUVWXYZabcdefghijklmnopqrstuvwxyz'')"

definition hex_digit :: "nat \<Rightarrow> char" where
  "hex_digit n = ''0123456789ABCDEF'' ! (n mod 16)"

definition percent_encode :: "char \<Rightarrow> string" where
  "percent_encode c =
     [CHR ''%'', hex_digit ((of_char c :: nat) div 16), hex_digit ((of_char c :: nat) mod 16)]"

definition urlencoded_byte :: "char \<Rightarrow> string" where
  "urlencoded_byte c =
     (if c = CHR '' '' then ''+'' else if urlencoded_safe c then [c] else percent_encode c)"

definition urlencoded_string :: "string \<Rightarrow> string" where
  "urlencoded_string s = concat (map urlencoded_byte s)"

definition urlencoded_serialize :: "params \<Rightarrow> string" where
  "urlencoded_serialize ps =
     join ''&'' (map (\<lambda>e. urlencoded_string (fst e) @ ''='' @ urlencoded_string (snd e)) ps)"

text \<open>\<open>u.searchParams.set(name, v)\<close>: the list changes, and the query with it.\<close>

definition url_searchParams_set :: "url \<Rightarrow> string \<Rightarrow> string \<Rightarrow> url" where
  "url_searchParams_set u name v =
     (let ps = searchParams_set (searchParams u) name v;
          q = urlencoded_serialize ps
      in u\<lparr>searchParams := ps, query := (if q = [] then None else Some q)\<rparr>)"

text \<open>\<open>u.toString()\<close>, the URL serialiser.\<close>

definition credentials :: "url \<Rightarrow> string" where
  "credentials u =
     (if username u = [] \<and> password u = [] then []
      else username u @ (if password u = [] then [] else CHR '':'' # password u) @ ''@'')"

definition toString :: "url \<Rightarrow> string" where
  "toString u =
     protocol u
     @ (case url_host u of
          Some h \<Rightarrow> ''//'' @ credentials u @ h
        | None \<Rightarrow> if startsWith (pathname u) ''//'' then ''/.'' else [])
     @ pathname u
     @ (case query u of None \<Rightarrow> [] | Some q \<Rightarrow> CHR ''?'' # q)
     @ (case fragment u of None \<Rightarrow> [] | Some f \<Rightarrow> CHR ''#'' # f)"

subsection \<open>JSON values, errors, responses\<close>

datatype json =
    JNull
  | JBool bool
  | JNumber rat
  | JString string
  | JArray "json list"
  | JObject "(string \<times> json) list"

text \<open>A thrown value; the string is what \<open>`${error}`\<close> prints for it.\<close>

datatype js_error = JsError string

fun error_text :: "js_error \<Rightarrow> string" where
  "error_text (JsError s) = s"

text \<open>
  The body a response is built from: a string, or the JSON text of a value
  (\<open>JSON.stringify\<close>, also inside \<open>Response.json\<close>).
\<close>

datatype body_init = BodyText string | BodyJson json

record response =
  status :: nat
  resp_headers :: headers
  resp_body :: body_init

text \<open>
  \<open>new Response(body, {status, headers})\<close> with a body that is not null, as the
  Workers runtime builds it: a status outside 200..599 is a \<open>RangeError\<close>; with
  a null-body status (204, 205, 304) a body of length zero is taken as no body,
  and the response has the headers given and no content type of its own, while
  any other body is a \<open>TypeError\<close>; elsewhere a response whose headers name no
  content type gets the one of its body.
\<close>

definition new_Response :: "body_init \<Rightarrow> nat \<Rightarrow> headers \<Rightarrow> js_error + response" where
  "new_Response b st hs =
     (if st < 200 \<or> 599 < st then
        Inl (JsError ''RangeError: Responses may only be constructed with status codes in the range 200 to 599, inclusive.'')
      else if st = 204 \<or> st = 205 \<or> st = 304 then
        (if b = BodyText [] then Inr \<lparr>status = st, resp_headers = hs, resp_body = b\<rparr>
         else Inl (JsError ''TypeError: Response with null body status (101, 204, 205, or 304) cannot have a body.''))
      else
        Inr \<lparr>status = st,
             resp_headers =
               (if headers_has hs ''content-type'' then hs
                else hs @ [(''content-type'',
                            case b of BodyText t \<Rightarrow> ''text/plain;charset=UTF-8''
                                    | BodyJson j \<Rightarrow> ''application/json'')]),
             resp_body = b\<rparr>)"

definition Response_json :: "json \<Rightarrow> nat \<Rightarrow> js_error + response" where
  "Response_json data st = new_Response (BodyJson data) st []"

text \<open>Truthiness of a property read: \<open>undefined\<close> is \<open>None\<close>.\<close>

fun json_truthy :: "json option \<Rightarrow> bool" where
  "json_truthy None = False"
| "json_truthy (Some JNull) = False"
| "json_truthy (Some (JBool b)) = b"
| "json_truthy (Some (JNumber x)) = (x \<noteq> 0)"
| "json_truthy (Some (JString s)) = (s \<noteq> [])"
| "json_truthy (Some (JArray xs)) = True"
| "json_truthy (Some (JObject fs)) = True"

text \<open>
  \<open>data.name\<close> on a parsed JSON value: reading a property of \<open>null\<close> throws, an
  object yields its member or \<open>undefined\<close>, and no other JSON value has a property
  of the name read here.
\<close>

fun get_property :: "json \<Rightarrow> string \<Rightarrow> js_error + json option" where
  "get_property JNull name =
     Inl (JsError (''TypeError: Cannot read properties of null (reading ''
                   @ [CHR 0x27] @ name @ [CHR 0x27] @ '')''))"
| "get_property (JObject fs) name = Inr (map_of fs name)"
| "get_property v name = Inr None"

text \<open>\<open>data.name = v\<close>, reached only for a value that has the property.\<close>

fun set_property :: "json \<Rightarrow> string \<Rightarrow> json \<Rightarrow> json" where
  "set_property (JObject fs) name v =
     JObject (if map_of fs name = None then fs @ [(name, v)]
              else map (\<lambda>e. if fst e = name then (name, v) else e) fs)"
| "set_property d name v = d"

subsection \<open>The container and the platform\<close>

text \<open>
  What \<open>containerFetch\<close> resolves to: the status and headers of the container's
  answer, and what reading its body with \<open>text()\<close> gives, which can reject.
\<close>

record fetched =
  f_status :: nat
  f_headers :: headers
  f_text :: "js_error + string"

text \<open>
  A Durable Object stub: \<open>containerFetch(url, request)\<close> and \<open>fetch(request)\<close>,
  each of which resolves (\<open>Inr\<close>) or rejects (\<open>Inl\<close>).
\<close>

record container =
  containerFetch :: "string \<Rightarrow> request \<Rightarrow> js_error + fetched"
  fetch :: "request \<Rightarrow> js_error + response"

text \<open>
  The environment: the key and the development flag, and the namespace. The
  field \<open>BROWSER_CONTAINER\<close> is the expression
  \<open>this.env.BROWSER_CONTAINER.get(this.env.BROWSER_CONTAINER.idFromName(name))\<close>:
  it yields the stub of a name, without contacting the container, or throws
  (\<open>Inl\<close>), as it does when the binding is missing.
\<close>

record env =
  API_KEY :: "string option"
  DEV :: "string option"
  BROWSER_CONTAINER :: "string \<Rightarrow> js_error + container"

text \<open>
  The parsers of the platform: \<open>JSON.parse\<close>, and \<open>new URL(v)\<close> applied to a JSON
  value (its conversion to a string included). Both can throw.
\<close>

record platform =
  JSON_parse :: "string \<Rightarrow> js_error + json"
  new_URL :: "json \<Rightarrow> js_error + url"

text \<open>\<open>resp.json()\<close> reads the body and parses it.\<close>

definition f_json :: "platform \<Rightarrow> fetched \<Rightarrow> js_error + json" where
  "f_json P resp = (case f_text resp of Inl e \<Rightarrow> Inl e | Inr t \<Rightarrow> JSON_parse P t)"

text \<open>What a handler does besides answering: calls to the container and console output.\<close>

datatype logged = LogText string | LogAuth auth_result | LogError js_error

datatype event =
    ContainerFetch string
  | StubFetch request
  | ConsoleLog "logged list"
  | ConsoleError "logged list"

type_synonym outcome = "(js_error + response) \<times> event list"

subsection \<open>The handlers\<close>

definition checkAuthentication :: "env \<Rightarrow> url \<Rightarrow> auth_result" where
  "checkAuthentication env u =
     (let isDev = (DEV env = Some ''true'') in
      if isDev then \<lparr>isAuthenticated = True, message = []\<rparr>
      else if \<not> truthy (API_KEY env) then
        \<lparr>isAuthenticated = False,
         message = ''API_KEY not configured. See README.md for instructions.''\<rparr>
      else
        let apiKeyParam = searchParams_get (searchParams u) ''apiKey'' in
        if truthy apiKeyParam \<and> apiKeyParam = API_KEY env then
          \<lparr>isAuthenticated = True, message = []\<rparr>
        else
          \<lparr>isAuthenticated = False,
           message = ''Invalid or missing API key. Use ?apiKey=YOUR_KEY''\<rparr>)"

text \<open>The address of the container inside, with the path and query of the request.\<close>

definition upstream_of :: "request \<Rightarrow> string" where
  "upstream_of req = ''http://127.0.0.1:3000'' @ pathname (url req) @ search (url req)"

text \<open>
  \<open>containerFetchWithRewrite\<close>. The copy \<open>new Headers(resp.headers)\<close> has the
  entries of the original. Nothing is caught here: a rejected call, a body that
  cannot be read and a status the \<open>Response\<close> constructor refuses all leave the
  handler as the thrown value.
\<close>

definition containerFetchWithRewrite :: "container \<Rightarrow> request \<Rightarrow> outcome" where
  "containerFetchWithRewrite c req =
     (let upstream = upstream_of req in
      (case containerFetch c upstream req of
         Inl e \<Rightarrow> Inl e
       | Inr resp \<Rightarrow>
           (case f_text resp of
              Inl e \<Rightarrow> Inl e
            | Inr text \<Rightarrow>
                let fixed = rewriteHost (url req) text;
                    hs = headers_delete (f_headers resp) ''content-length''
                in new_Response (BodyText fixed) (f_status resp) hs),
       [ContainerFetch upstream]))"

text \<open>
  The body of the \<open>try\<close> block of \<open>handleJsonVersionRequest\<close>, after the call to
  the container has resolved to \<open>resp\<close>: \<open>Inl\<close> is a value thrown inside the block.
\<close>

definition too_many_sessions :: "string \<Rightarrow> json" where
  "too_many_sessions text =
     JObject [(''error'', JString ''Too many concurrent browser sessions''),
              (''message'', JString
                 ''Maximum concurrent container limit reached. Please try again later.''),
              (''details'', JString text)]"

definition is_json_content :: "fetched \<Rightarrow> bool" where
  "is_json_content resp =
     (case headers_get (f_headers resp) ''content-type'' of
        None \<Rightarrow> False
      | Some contentType \<Rightarrow> str_includes contentType ''application/json'')"

text \<open>The branch for a JSON answer (lines 223 to 230).\<close>

definition discovery_json :: "platform \<Rightarrow> request \<Rightarrow> string \<Rightarrow> fetched \<Rightarrow> js_error + response" where
  "discovery_json P req sessionId resp =
     (case f_json P resp of
        Inl e \<Rightarrow> Inl e
      | Inr data \<Rightarrow>
          (case get_property data ''webSocketDebuggerUrl'' of
             Inl e \<Rightarrow> Inl e
           | Inr field \<Rightarrow>
               if json_truthy field then
                 (case new_URL P (case field of Some v \<Rightarrow> v | None \<Rightarrow> JNull) of
                    Inl e \<Rightarrow> Inl e
                  | Inr wsUrl \<Rightarrow>
                      Response_json
                        (set_property data ''webSocketDebuggerUrl''
                           (JString (rewriteHost (url req)
                              (toString (url_searchParams_set wsUrl ''sessionId'' sessionId)))))
                        200)
               else Response_json data 200))"

definition discovery_response :: "platform \<Rightarrow> request \<Rightarrow> string \<Rightarrow> fetched \<Rightarrow> outcome" where
  "discovery_response P req sessionId resp =
     (if \<not> is_json_content resp then
        (case f_text resp of
           Inl e \<Rightarrow> (Inl e, [])
         | Inr text \<Rightarrow>
             (if str_includes text ''no Container instance available''
                 \<or> str_includes text ''max concurrent instance count''
              then new_Response (BodyJson (too_many_sessions text)) 429
                     [(''Content-Type'', ''application/json'')]
              else new_Response (BodyText (''Container initialization failed: '' @ text)) 500 [],
              [ConsoleError [LogText (''Non-JSON response from container: '' @ text)]]))
      else (discovery_json P req sessionId resp, []))"

text \<open>
  \<open>handleJsonVersionRequest\<close>; \<open>sessionId\<close> is the value \<open>randomUUID()\<close> returned.
  The stub is taken at lines 184 to 186, before the \<open>try\<close> block opens at line
  190, so what is thrown there leaves the handler. The block makes the one call
  to the container, and the \<open>catch\<close> clause turns what was thrown inside the
  block into a 500.
\<close>

definition handleJsonVersionRequest :: "platform \<Rightarrow> env \<Rightarrow> request \<Rightarrow> string \<Rightarrow> outcome" where
  "handleJsonVersionRequest P e req sessionId =
     (case BROWSER_CONTAINER e sessionId of
        Inl thrown \<Rightarrow> (Inl thrown, [])
      | Inr c \<Rightarrow>
          let upstream = upstream_of req;
              tried = (case containerFetch c upstream req of
                         Inl err \<Rightarrow> (Inl err, [])
                       | Inr resp \<Rightarrow> discovery_response P req sessionId resp)
          in case fst tried of
               Inr r \<Rightarrow> (Inr r, ContainerFetch upstream # snd tried)
             | Inl err \<Rightarrow>
                 (new_Response
                    (BodyText (''Failed to initialize browser container: '' @ error_text err))
                    500 [],
                  ContainerFetch upstream # snd tried
                    @ [ConsoleError [LogText (''Error with container '' @ sessionId @ '':''),
                                     LogError err]]))"

text \<open>
  \<open>headers.set(name, v)\<close> for a valid name. The value is stripped of leading and
  trailing HTTP whitespace; a value that then holds a NUL, a line feed or a
  carriage return is a \<open>TypeError\<close>. Otherwise \<open>set\<close> overwrites the first entry
  of that name and drops the others, or appends.
\<close>

definition http_whitespace :: "char \<Rightarrow> bool" where
  "http_whitespace c = (c = CHR 0x09 \<or> c = CHR 0x0A \<or> c = CHR 0x0D \<or> c = CHR 0x20)"

definition normalize_value :: "string \<Rightarrow> string" where
  "normalize_value v = rev (dropWhile http_whitespace (rev (dropWhile http_whitespace v)))"

definition valid_value :: "string \<Rightarrow> bool" where
  "valid_value v = (CHR 0x00 \<notin> set v \<and> CHR 0x0A \<notin> set v \<and> CHR 0x0D \<notin> set v)"

fun set_entry :: "headers \<Rightarrow> string \<Rightarrow> string \<Rightarrow> headers" where
  "set_entry [] name v = [(lower name, v)]"
| "set_entry (e # hs) name v =
     (if lower (fst e) = lower name then (fst e, v) # headers_delete hs name
      else e # set_entry hs name v)"

definition headers_set :: "headers \<Rightarrow> string \<Rightarrow> string \<Rightarrow> js_error + headers" where
  "headers_set hs name v =
     (if valid_value (normalize_value v) then Inr (set_entry hs name (normalize_value v))
      else Inl (JsError ''TypeError: Invalid header value.''))"

text \<open>
  \<open>handleWebsocketUpgrade\<close>: the request goes on with the session header set;
  when the header cannot be set, nothing is sent.
\<close>

definition handleWebsocketUpgrade :: "container \<Rightarrow> string \<Rightarrow> request \<Rightarrow> outcome" where
  "handleWebsocketUpgrade c sessionId req =
     (case headers_set (headers req) ''X-Session-ID'' sessionId of
        Inl thrown \<Rightarrow> (Inl thrown, [])
      | Inr newHeaders \<Rightarrow>
          let newRequest = req\<lparr>headers := newHeaders\<rparr>
          in (fetch c newRequest, [StubFetch newRequest]))"

definition auth_required :: "auth_result \<Rightarrow> json" where
  "auth_required authResult =
     JObject [(''error'', JString ''Authentication required''),
              (''message'', JString (message authResult)),
              (''instructions'', JString
                 ''Add ?apiKey=YOUR_API_KEY to the URL or use Authorization header'')]"

text \<open>
  Lines 66 to 85 of \<open>handle\<close>, the branch for a discovery request without a
  session: the authentication check and, past it, the discovery handler. The
  path is tested again where the check has failed, as the source does.
\<close>

definition gated_discovery :: "platform \<Rightarrow> env \<Rightarrow> request \<Rightarrow> string \<Rightarrow> outcome" where
  "gated_discovery P e req uuid =
     (let authResult = checkAuthentication e (url req) in
      if \<not> isAuthenticated authResult then
        (if isJsonVersionRequest (url req) then Response_json (auth_required authResult) 401
         else new_Response (BodyText (message authResult)) 401 [],
         [ConsoleLog [LogAuth authResult]])
      else handleJsonVersionRequest P e req uuid)"

text \<open>
  \<open>handle\<close>; \<open>uuid\<close> is what \<open>randomUUID()\<close> returns if the handler calls it. The
  test \<open>!sessionId\<close> holds of \<open>null\<close> and of the empty string.
\<close>

definition handle :: "platform \<Rightarrow> env \<Rightarrow> request \<Rightarrow> string \<Rightarrow> outcome" where
  "handle P e req uuid =
     (let upgradeHeader = headers_get (headers req) ''Upgrade'';
          sessionId = extractSessionId req
      in
      if \<not> truthy sessionId \<and> isJsonVersionRequest (url req) then gated_discovery P e req uuid
      else
        (case sessionId of
           None \<Rightarrow> (new_Response (BodyText ''Session ID required'') 400 [], [])
         | Some sid \<Rightarrow>
             if sid = [] then (new_Response (BodyText ''Session ID required'') 400 [], [])
             else
               (case BROWSER_CONTAINER e sid of
                  Inl thrown \<Rightarrow> (Inl thrown, [])
                | Inr c \<Rightarrow>
                    if upgradeHeader = Some ''websocket'' then handleWebsocketUpgrade c sid req
                    else containerFetchWithRewrite c req)))"

subsection \<open>Observations and example values\<close>

text \<open>The events that contact a container.\<close>

fun is_fetch :: "event \<Rightarrow> bool" where
  "is_fetch (ContainerFetch u) = True"
| "is_fetch (StubFetch r) = True"
| "is_fetch (ConsoleLog xs) = False"
| "is_fetch (ConsoleError xs) = False"

text \<open>
  Concrete requests, containers and parsers, on which the theorems below are
  evaluated: a worker reached as \<open>browser.example.com\<close>, and a Chromium whose
  \<open>/json/version\<close> names its debugger socket.
\<close>

definition example_uuid :: string where
  "example_uuid = ''123e4567-e89b-42d3-a456-426614174000''"

definition request_url :: "string \<Rightarrow> params \<Rightarrow> url" where
  "request_url path ps =
     \<lparr>protocol = ''https:'', username = [], password = [],
      url_host = Some ''browser.example.com'', pathname = path,
      query = (if ps = [] then None else Some (urlencoded_serialize ps)),
      searchParams = ps, fragment = None\<rparr>"

definition example_request :: "string \<Rightarrow> headers \<Rightarrow> string \<Rightarrow> params \<Rightarrow> request" where
  "example_request m hs path ps =
     \<lparr>http_method = m, headers = hs, url = request_url path ps,
      body = (if m = ''POST'' then Some [] else None)\<rparr>"

definition version_text :: "string \<Rightarrow> string" where
  \<open>version_text ws = ''{"Browser":"Chrome/120.0.0.0","webSocketDebuggerUrl":"'' @ ws @ ''"}''\<close>

definition version_json :: "string \<Rightarrow> json" where
  "version_json ws =
     JObject [(''Browser'', JString ''Chrome/120.0.0.0''), (''webSocketDebuggerUrl'', JString ws)]"

definition debugger_url :: "string \<Rightarrow> url" where
  "debugger_url h =
     \<lparr>protocol = ''ws:'', username = [], password = [], url_host = Some h,
      pathname = ''/devtools/browser/b0b8a4fb'', query = None, searchParams = [],
      fragment = None\<rparr>"

definition example_platform :: platform where
  "example_platform =
     \<lparr>JSON_parse = (\<lambda>t.
        if t = ''null'' then Inr JNull
        else if t = version_text ''ws://127.0.0.1:3000/devtools/browser/b0b8a4fb''
        then Inr (version_json ''ws://127.0.0.1:3000/devtools/browser/b0b8a4fb'')
        else if t = version_text ''ws://localhost:3000/devtools/browser/b0b8a4fb''
        then Inr (version_json ''ws://localhost:3000/devtools/browser/b0b8a4fb'')
        else if t = version_text ''devtools/browser/b0b8a4fb''
        then Inr (version_json ''devtools/browser/b0b8a4fb'')
        else Inl (JsError ''SyntaxError: Unexpected token'')),
      new_URL = (\<lambda>v.
        if v = JString ''ws://127.0.0.1:3000/devtools/browser/b0b8a4fb''
        then Inr (debugger_url ''127.0.0.1:3000'')
        else if v = JString ''ws://localhost:3000/devtools/browser/b0b8a4fb''
        then Inr (debugger_url ''localhost:3000'')
        else Inl (JsError ''TypeError: Invalid URL''))\<rparr>"

definition answering :: "nat \<Rightarrow> headers \<Rightarrow> js_error + string \<Rightarrow> container" where
  "answering st hs t =
     \<lparr>containerFetch = (\<lambda>u r. Inr \<lparr>f_status = st, f_headers = hs, f_text = t\<rparr>),
      fetch = (\<lambda>r. Inl (JsError ''Error: not a WebSocket endpoint''))\<rparr>"

definition rejecting :: "js_error \<Rightarrow> container" where
  "rejecting err = \<lparr>containerFetch = (\<lambda>u r. Inl err), fetch = (\<lambda>r. Inl err)\<rparr>"

definition chrome :: "string \<Rightarrow> container" where
  "chrome t = answering 200 [(''Content-Type'', ''application/json; charset=UTF-8'')] (Inr t)"

definition example_env :: "string option \<Rightarrow> string option \<Rightarrow> container \<Rightarrow> env" where
  "example_env k d c = \<lparr>API_KEY = k, DEV = d, BROWSER_CONTAINER = (\<lambda>name. Inr c)\<rparr>"

text \<open>An environment without the namespace binding: taking a stub throws.\<close>

definition unbound_env :: env where
  "unbound_env =
     \<lparr>API_KEY = None, DEV = Some ''true'',
      BROWSER_CONTAINER = (\<lambda>name. Inl (JsError
        ''TypeError: Cannot read properties of undefined (reading 'get')''))\<rparr>"

lemmas example_defs = example_uuid_def request_url_def example_request_def version_text_def
  version_json_def debugger_url_def example_platform_def answering_def rejecting_def chrome_def
  example_env_def unbound_env_def

lemmas session_defs = extractSessionId_def headers_get_def js_or_def truthy_def
  searchParams_get_def lower_def lower_char_def isJsonVersionRequest_def

section \<open>Properties\<close>

subsection \<open>The string functions\<close>

text \<open>
  \<open>startsWith\<close> and \<open>includes\<close> are the prefix and the substring test; text that
  does not contain the loopback address is not changed by the replacement.
\<close>

lemma startsWith_prefix: "startsWith s p = prefix p s"
  by (induction s p rule: startsWith.induct) auto

lemma str_includes_sublist: "str_includes s p = sublist p s"
  by (induction s) (auto simp: startsWith_prefix sublist_Cons_right)

lemma replace_from_no_match:
  "\<not> str_includes s loopback \<Longrightarrow> replace_from rep b s = s"
proof (induction s arbitrary: b)
  case Nil
  show ?case by (simp add: replace_from.simps loopback_def)
next
  case (Cons c t)
  from Cons.prems have "\<not> startsWith (c # t) loopback" and "\<not> str_includes t loopback"
    by simp_all
  with Cons.IH [of "b @ [c]"] show ?case
    by (subst replace_from.simps) simp
qed

subsection \<open>Routing\<close>

lemma handle_without_session:
  "\<not> truthy (extractSessionId req) \<Longrightarrow>
   handle P e req uuid =
     (if isJsonVersionRequest (url req) then gated_discovery P e req uuid
      else (new_Response (BodyText ''Session ID required'') 400 [], []))"
  by (auto simp: handle_def Let_def truthy_def split: option.splits)

lemma handle_with_session:
  "extractSessionId req = Some sid \<Longrightarrow> sid \<noteq> [] \<Longrightarrow> BROWSER_CONTAINER e sid = Inr c \<Longrightarrow>
   handle P e req uuid =
     (if headers_get (headers req) ''Upgrade'' = Some ''websocket''
      then handleWebsocketUpgrade c sid req
      else containerFetchWithRewrite c req)"
  by (simp add: handle_def Let_def truthy_def)

lemma new_Response_const [simp]:
  "new_Response (BodyText t) 400 [] =
     Inr \<lparr>status = 400, resp_headers = [(''content-type'', ''text/plain;charset=UTF-8'')],
          resp_body = BodyText t\<rparr>"
  "new_Response (BodyText t) 500 [] =
     Inr \<lparr>status = 500, resp_headers = [(''content-type'', ''text/plain;charset=UTF-8'')],
          resp_body = BodyText t\<rparr>"
  "new_Response (BodyText t) 401 [] =
     Inr \<lparr>status = 401, resp_headers = [(''content-type'', ''text/plain;charset=UTF-8'')],
          resp_body = BodyText t\<rparr>"
  "new_Response (BodyJson j) 429 [(''Content-Type'', ''application/json'')] =
     Inr \<lparr>status = 429, resp_headers = [(''Content-Type'', ''application/json'')],
          resp_body = BodyJson j\<rparr>"
  "Response_json j 200 =
     Inr \<lparr>status = 200, resp_headers = [(''content-type'', ''application/json'')],
          resp_body = BodyJson j\<rparr>"
  "Response_json j 401 =
     Inr \<lparr>status = 401, resp_headers = [(''content-type'', ''application/json'')],
          resp_body = BodyJson j\<rparr>"
  by (simp_all add: new_Response_def Response_json_def headers_has_def lower_def lower_char_def)

text \<open>
  The gated discovery handler never returns a response without an event: it has
  logged the failed check, or called the container, or it has thrown.
\<close>

lemma gated_discovery_not_silent: "gated_discovery P e req uuid \<noteq> (Inr r, [])"
  by (auto simp: gated_discovery_def handleJsonVersionRequest_def Let_def split: sum.splits)

text \<open>
  Claim C1, as amended. A request without session identity is routed to the
  gated discovery handler if and only if its path is exactly \<open>/json/version\<close> or
  \<open>/json/version/\<close>. The method is not looked at: the statement holds of every
  request, whatever its method.
\<close>

theorem discovery_routing:
  assumes "\<not> truthy (extractSessionId req)"
  shows "(handle P e req uuid = gated_discovery P e req uuid)
     = (pathname (url req) = ''/json/version'' \<or> pathname (url req) = ''/json/version/'')"
proof (cases "isJsonVersionRequest (url req)")
  case True
  with assms show ?thesis
    by (simp add: handle_without_session) (simp add: isJsonVersionRequest_def)
next
  case False
  with assms have "handle P e req uuid =
      (Inr \<lparr>status = 400, resp_headers = [(''content-type'', ''text/plain;charset=UTF-8'')],
            resp_body = BodyText ''Session ID required''\<rparr>, [])"
    by (simp add: handle_without_session)
  with gated_discovery_not_silent [of P e req uuid]
  have "handle P e req uuid \<noteq> gated_discovery P e req uuid"
    by metis
  with False show ?thesis
    by (simp add: isJsonVersionRequest_def)
qed

text \<open>
  The theorem at \<open>GET /json/version/\<close> without session: the request goes to the
  gated discovery handler.
\<close>

theorem discovery_routing_witness:
  "\<not> truthy (extractSessionId (example_request ''GET'' [] ''/json/version/'' []))
   \<and> handle example_platform (example_env None (Some ''true'') (rejecting (JsError ''Error'')))
        (example_request ''GET'' [] ''/json/version/'' []) example_uuid
     = gated_discovery example_platform
        (example_env None (Some ''true'') (rejecting (JsError ''Error'')))
        (example_request ''GET'' [] ''/json/version/'' []) example_uuid"
  using discovery_routing [of "example_request ''GET'' [] ''/json/version/'' []"
      example_platform "example_env None (Some ''true'') (rejecting (JsError ''Error''))"
      example_uuid]
  by (simp add: example_defs session_defs)

text \<open>
  Claim C1 as stated fails: a \<open>POST\<close> to \<open>/json/version\<close> without session is not
  a \<open>GET\<close>, and it is served by the gated discovery handler, which asks the
  container and answers 200 with the discovery document.
\<close>

theorem discovery_routing_post_counterexample:
  "http_method (example_request ''POST'' [] ''/json/version'' []) \<noteq> ''GET''
   \<and> \<not> truthy (extractSessionId (example_request ''POST'' [] ''/json/version'' []))
   \<and> handle example_platform
        (example_env None (Some ''true'')
           (chrome (version_text ''ws://127.0.0.1:3000/devtools/browser/b0b8a4fb'')))
        (example_request ''POST'' [] ''/json/version'' []) example_uuid
     = gated_discovery example_platform
        (example_env None (Some ''true'')
           (chrome (version_text ''ws://127.0.0.1:3000/devtools/browser/b0b8a4fb'')))
        (example_request ''POST'' [] ''/json/version'' []) example_uuid
   \<and> handle example_platform
        (example_env None (Some ''true'')
           (chrome (version_text ''ws://127.0.0.1:3000/devtools/browser/b0b8a4fb'')))
        (example_request ''POST'' [] ''/json/version'' []) example_uuid
     = (Inr \<lparr>status = 200, resp_headers = [(''content-type'', ''application/json'')],
             resp_body = BodyJson (JObject
               [(''Browser'', JString ''Chrome/120.0.0.0''),
                (''webSocketDebuggerUrl'', JString
                   ''ws://browser.example.com/devtools/browser/b0b8a4fb?sessionId=123e4567-e89b-42d3-a456-426614174000'')])\<rparr>,
        [ContainerFetch ''http://127.0.0.1:3000/json/version''])"
  by (simp add: example_defs session_defs handle_def gated_discovery_def checkAuthentication_def
      handleJsonVersionRequest_def upstream_of_def search_def discovery_response_def
      is_json_content_def discovery_json_def f_json_def rewriteHost_def host_def toString_def
      url_searchParams_set_def urlencoded_serialize_def urlencoded_string_def urlencoded_byte_def
      urlencoded_safe_def credentials_def loopback_def replace_from.simps Let_def)

text \<open>
  Claim C5. A request without session identity whose path is not the discovery
  path is answered with status 400 and the plain-text body \<open>Session ID required\<close>,
  and no container is contacted.
\<close>

theorem session_required:
  "\<not> truthy (extractSessionId req) \<Longrightarrow> \<not> isJsonVersionRequest (url req) \<Longrightarrow>
   handle P e req uuid =
     (Inr \<lparr>status = 400, resp_headers = [(''content-type'', ''text/plain;charset=UTF-8'')],
           resp_body = BodyText ''Session ID required''\<rparr>, [])"
  by (simp add: handle_without_session)

text \<open>The theorem at \<open>GET /json/list\<close> without session.\<close>

theorem session_required_witness:
  "\<not> truthy (extractSessionId (example_request ''GET'' [] ''/json/list'' []))
   \<and> \<not> isJsonVersionRequest (url (example_request ''GET'' [] ''/json/list'' []))
   \<and> handle example_platform (example_env (Some ''secret'') None (rejecting (JsError ''Error'')))
        (example_request ''GET'' [] ''/json/list'' []) example_uuid
     = (Inr \<lparr>status = 400, resp_headers = [(''content-type'', ''text/plain;charset=UTF-8'')],
             resp_body = BodyText ''Session ID required''\<rparr>, [])"
  using session_required [of "example_request ''GET'' [] ''/json/list'' []"
      example_platform "example_env (Some ''secret'') None (rejecting (JsError ''Error''))"
      example_uuid]
  by (simp add: example_defs session_defs)

subsection \<open>Session identity\<close>

text \<open>
  Claim C8, as amended. The \<open>X-Session-ID\<close> header has priority when its value
  is not empty: then that value is the session identity. When the header is
  missing or present with an empty value, the result is what the \<open>sessionId\<close>
  query parameter gives; when header and parameter are both missing, the result
  is absent.
\<close>

theorem extractSessionId_precedence:
  "(headers_get (headers req) ''X-Session-ID'' = Some v \<and> v \<noteq> [] \<longrightarrow>
      extractSessionId req = Some v)
   \<and> (headers_get (headers req) ''X-Session-ID'' = None
        \<or> headers_get (headers req) ''X-Session-ID'' = Some [] \<longrightarrow>
      extractSessionId req = searchParams_get (searchParams (url req)) ''sessionId'')
   \<and> (headers_get (headers req) ''X-Session-ID'' = None
        \<and> searchParams_get (searchParams (url req)) ''sessionId'' = None \<longrightarrow>
      extractSessionId req = None)"
  by (auto simp: extractSessionId_def js_or_def truthy_def)

text \<open>
  The theorem on three requests: header \<open>xyz\<close> beside \<open>?sessionId=abc\<close>, the
  query parameter alone, and neither.
\<close>

theorem extractSessionId_precedence_witness:
  "extractSessionId (example_request ''GET'' [(''x-session-id'', ''xyz'')] ''/json/list''
       [(''sessionId'', ''abc'')]) = Some ''xyz''
   \<and> extractSessionId (example_request ''GET'' [] ''/json/list'' [(''sessionId'', ''abc'')])
       = Some ''abc''
   \<and> extractSessionId (example_request ''GET'' [] ''/json/list'' []) = None"
  using extractSessionId_precedence [of "example_request ''GET'' [(''x-session-id'', ''xyz'')]
          ''/json/list'' [(''sessionId'', ''abc'')]" "''xyz''"]
    extractSessionId_precedence [of "example_request ''GET'' [] ''/json/list''
          [(''sessionId'', ''abc'')]"]
    extractSessionId_precedence [of "example_request ''GET'' [] ''/json/list'' []"]
  by (simp add: example_defs headers_get_def searchParams_get_def lower_def lower_char_def)

text \<open>
  Claim C8 as stated fails: the header is present, with the empty value, beside
  \<open>?sessionId=abc\<close>, and the session identity is \<open>abc\<close>, not the header's value.
\<close>

theorem extractSessionId_empty_header_counterexample:
  "headers_get (headers (example_request ''GET'' [(''X-Session-ID'', [])] ''/json/list''
                   [(''sessionId'', ''abc'')])) ''X-Session-ID'' = Some []
   \<and> extractSessionId (example_request ''GET'' [(''X-Session-ID'', [])] ''/json/list''
                   [(''sessionId'', ''abc'')]) = Some ''abc''"
  by (simp add: example_defs session_defs)

text \<open>
  Claim C10. An empty session value counts as absent: with the header present
  and empty, the result is that of the \<open>sessionId\<close> query parameter; and when
  header and parameter are each missing or empty, the request is handled as one
  without session identity, by the gated discovery handler on the discovery
  path and with the 400 response elsewhere.
\<close>

theorem empty_session_absent:
  "(headers_get (headers req) ''X-Session-ID'' = Some [] \<longrightarrow>
      extractSessionId req = searchParams_get (searchParams (url req)) ''sessionId'')
   \<and> ((headers_get (headers req) ''X-Session-ID'' = None
          \<or> headers_get (headers req) ''X-Session-ID'' = Some [])
        \<and> (searchParams_get (searchParams (url req)) ''sessionId'' = None
          \<or> searchParams_get (searchParams (url req)) ''sessionId'' = Some []) \<longrightarrow>
      handle P e req uuid =
        (if isJsonVersionRequest (url req) then gated_discovery P e req uuid
         else (Inr \<lparr>status = 400,
                    resp_headers = [(''content-type'', ''text/plain;charset=UTF-8'')],
                    resp_body = BodyText ''Session ID required''\<rparr>, [])))"
proof (intro conjI impI)
  assume "headers_get (headers req) ''X-Session-ID'' = Some []"
  then show "extractSessionId req = searchParams_get (searchParams (url req)) ''sessionId''"
    by (simp add: extractSessionId_def js_or_def truthy_def)
next
  assume "(headers_get (headers req) ''X-Session-ID'' = None
          \<or> headers_get (headers req) ''X-Session-ID'' = Some [])
        \<and> (searchParams_get (searchParams (url req)) ''sessionId'' = None
          \<or> searchParams_get (searchParams (url req)) ''sessionId'' = Some [])"
  then have "\<not> truthy (extractSessionId req)"
    by (auto simp: extractSessionId_def js_or_def truthy_def)
  then show "handle P e req uuid =
        (if isJsonVersionRequest (url req) then gated_discovery P e req uuid
         else (Inr \<lparr>status = 400,
                    resp_headers = [(''content-type'', ''text/plain;charset=UTF-8'')],
                    resp_body = BodyText ''Session ID required''\<rparr>, []))"
    by (simp add: handle_without_session)
qed

text \<open>
  The theorem on \<open>GET /json/list?sessionId=\<close> with an empty \<open>X-Session-ID\<close>
  header: both values are empty, and the answer is the 400 response.
\<close>

theorem empty_session_absent_witness:
  "headers_get (headers (example_request ''GET'' [(''X-Session-ID'', [])] ''/json/list''
       [(''sessionId'', [])])) ''X-Session-ID'' = Some []
   \<and> searchParams_get (searchParams (url (example_request ''GET'' [(''X-Session-ID'', [])]
       ''/json/list'' [(''sessionId'', [])]))) ''sessionId'' = Some []
   \<and> extractSessionId (example_request ''GET'' [(''X-Session-ID'', [])] ''/json/list''
       [(''sessionId'', [])]) = Some []
   \<and> handle example_platform (example_env (Some ''secret'') None (rejecting (JsError ''Error'')))
        (example_request ''GET'' [(''X-Session-ID'', [])] ''/json/list'' [(''sessionId'', [])])
        example_uuid
     = (Inr \<lparr>status = 400, resp_headers = [(''content-type'', ''text/plain;charset=UTF-8'')],
             resp_body = BodyText ''Session ID required''\<rparr>, [])"
  using empty_session_absent [of "example_request ''GET'' [(''X-Session-ID'', [])]
          ''/json/list'' [(''sessionId'', [])]" example_platform
          "example_env (Some ''secret'') None (rejecting (JsError ''Error''))" example_uuid]
  by (simp add: example_defs headers_get_def searchParams_get_def lower_def lower_char_def
      isJsonVersionRequest_def)

subsection \<open>Authentication\<close>

text \<open>
  Claim C2. The check answers authenticated exactly when development mode is
  on (\<open>DEV\<close> is the string \<open>true\<close>), or a key is configured (\<open>API_KEY\<close> is a
  non-empty string) and the \<open>apiKey\<close> query parameter equals it. With
  development mode off and no key configured, the answer is unauthenticated with
  the configuration message, whatever the request supplies.
\<close>

theorem checkAuthentication_decision:
  "isAuthenticated (checkAuthentication e u) =
     (DEV e = Some ''true''
      \<or> (\<exists>k. k \<noteq> [] \<and> API_KEY e = Some k
              \<and> searchParams_get (searchParams u) ''apiKey'' = Some k))
   \<and> (DEV e \<noteq> Some ''true'' \<and> (API_KEY e = None \<or> API_KEY e = Some []) \<longrightarrow>
        checkAuthentication e u =
          \<lparr>isAuthenticated = False,
           message = ''API_KEY not configured. See README.md for instructions.''\<rparr>)"
  by (auto simp: checkAuthentication_def truthy_def Let_def split: option.splits)

text \<open>
  The theorem with the key \<open>secret\<close> configured and supplied, and with no key
  configured while the request supplies one.
\<close>

theorem checkAuthentication_decision_witness:
  "isAuthenticated (checkAuthentication
       (example_env (Some ''secret'') None (rejecting (JsError ''Error'')))
       (request_url ''/json/version'' [(''apiKey'', ''secret'')]))
   \<and> checkAuthentication (example_env None (Some ''false'') (rejecting (JsError ''Error'')))
       (request_url ''/json/version'' [(''apiKey'', ''secret'')])
     = \<lparr>isAuthenticated = False,
        message = ''API_KEY not configured. See README.md for instructions.''\<rparr>"
  using checkAuthentication_decision
      [of "example_env (Some ''secret'') None (rejecting (JsError ''Error''))"
          "request_url ''/json/version'' [(''apiKey'', ''secret'')]"]
    checkAuthentication_decision
      [of "example_env None (Some ''false'') (rejecting (JsError ''Error''))"
          "request_url ''/json/version'' [(''apiKey'', ''secret'')]"]
  by (simp add: example_defs searchParams_get_def)

lemma discovery_json_status:
  "discovery_json P req sid resp = Inr r \<Longrightarrow> status r = 200"
  by (auto simp: discovery_json_def split: sum.splits if_splits)

lemma discovery_response_status:
  "fst (discovery_response P req sid resp) = Inr r \<Longrightarrow>
   status r = 200 \<or> status r = 429 \<or> status r = 500"
  by (auto simp: discovery_response_def dest: discovery_json_status split: sum.splits if_splits)

lemma handleJsonVersionRequest_status:
  "fst (handleJsonVersionRequest P e req sid) = Inr r \<Longrightarrow>
   status r = 200 \<or> status r = 429 \<or> status r = 500"
  by (auto simp: handleJsonVersionRequest_def Let_def dest: discovery_response_status
      split: sum.splits)

text \<open>
  Claim C9. When the check fails for a discovery request without session, the
  answer is the 401 response with the JSON body of the three members \<open>error\<close>,
  \<open>message\<close> and \<open>instructions\<close>. The plain-text 401 of the fallback branch is
  never the answer to a request without session, whatever its text \<open>m\<close>. And the
  check is consulted nowhere else: for a request with a session identity, or one
  off the discovery path, the outcome does not depend on the key or on the
  development flag.
\<close>

theorem auth_failure_structured:
  "(\<not> truthy (extractSessionId req) \<and> isJsonVersionRequest (url req)
      \<and> \<not> isAuthenticated (checkAuthentication e (url req)) \<longrightarrow>
    handle P e req uuid =
      (Inr \<lparr>status = 401, resp_headers = [(''content-type'', ''application/json'')],
            resp_body = BodyJson (JObject
              [(''error'', JString ''Authentication required''),
               (''message'', JString (message (checkAuthentication e (url req)))),
               (''instructions'', JString
                  ''Add ?apiKey=YOUR_API_KEY to the URL or use Authorization header'')])\<rparr>,
       [ConsoleLog [LogAuth (checkAuthentication e (url req))]]))
   \<and> (\<not> truthy (extractSessionId req) \<longrightarrow>
        fst (handle P e req uuid) \<noteq> new_Response (BodyText m) 401 [])
   \<and> (truthy (extractSessionId req) \<or> \<not> isJsonVersionRequest (url req) \<longrightarrow>
        handle P (e\<lparr>API_KEY := k, DEV := d\<rparr>) req uuid = handle P e req uuid)"
proof (intro conjI impI)
  assume "\<not> truthy (extractSessionId req) \<and> isJsonVersionRequest (url req)
      \<and> \<not> isAuthenticated (checkAuthentication e (url req))"
  then show "handle P e req uuid =
      (Inr \<lparr>status = 401, resp_headers = [(''content-type'', ''application/json'')],
            resp_body = BodyJson (JObject
              [(''error'', JString ''Authentication required''),
               (''message'', JString (message (checkAuthentication e (url req)))),
               (''instructions'', JString
                  ''Add ?apiKey=YOUR_API_KEY to the URL or use Authorization header'')])\<rparr>,
       [ConsoleLog [LogAuth (checkAuthentication e (url req))]])"
    by (simp add: handle_without_session gated_discovery_def auth_required_def Let_def)
next
  assume ns: "\<not> truthy (extractSessionId req)"
  show "fst (handle P e req uuid) \<noteq> new_Response (BodyText m) 401 []"
  proof (cases "isJsonVersionRequest (url req)")
    case False
    with ns show ?thesis by (simp add: handle_without_session)
  next
    case True
    show ?thesis
    proof (cases "isAuthenticated (checkAuthentication e (url req))")
      case False
      with ns True show ?thesis
        by (simp add: handle_without_session gated_discovery_def Let_def)
    next
      case auth: True
      show ?thesis
      proof
        assume "fst (handle P e req uuid) = new_Response (BodyText m) 401 []"
        with ns True auth have "fst (handleJsonVersionRequest P e req uuid) =
           Inr \<lparr>status = 401, resp_headers = [(''content-type'', ''text/plain;charset=UTF-8'')],
                resp_body = BodyText m\<rparr>"
          by (simp add: handle_without_session gated_discovery_def Let_def)
        from handleJsonVersionRequest_status [OF this] show False by simp
      qed
    qed
  qed
next
  assume "truthy (extractSessionId req) \<or> \<not> isJsonVersionRequest (url req)"
  then show "handle P (e\<lparr>API_KEY := k, DEV := d\<rparr>) req uuid = handle P e req uuid"
    by (auto simp: handle_def Let_def split: option.splits)
qed

text \<open>
  The theorem on a discovery request with the wrong key, which gets the
  structured 401, and on a request with a session, whose outcome is the same
  with and without a configured key.
\<close>

theorem auth_failure_structured_witness:
  "handle example_platform (example_env (Some ''secret'') None (rejecting (JsError ''Error'')))
        (example_request ''GET'' [] ''/json/version'' [(''apiKey'', ''wrong'')]) example_uuid
     = (Inr \<lparr>status = 401, resp_headers = [(''content-type'', ''application/json'')],
            resp_body = BodyJson (JObject
              [(''error'', JString ''Authentication required''),
               (''message'', JString ''Invalid or missing API key. Use ?apiKey=YOUR_KEY''),
               (''instructions'', JString
                  ''Add ?apiKey=YOUR_API_KEY to the URL or use Authorization header'')])\<rparr>,
        [ConsoleLog [LogAuth \<lparr>isAuthenticated = False,
                               message = ''Invalid or missing API key. Use ?apiKey=YOUR_KEY''\<rparr>]])
   \<and> fst (handle example_platform
             (example_env (Some ''secret'') None (rejecting (JsError ''Error'')))
             (example_request ''GET'' [] ''/json/version'' [(''apiKey'', ''wrong'')]) example_uuid)
       \<noteq> new_Response (BodyText ''Invalid or missing API key. Use ?apiKey=YOUR_KEY'') 401 []
   \<and> handle example_platform
        ((example_env (Some ''secret'') None (rejecting (JsError ''Error'')))
           \<lparr>API_KEY := None, DEV := None\<rparr>)
        (example_request ''GET'' [(''X-Session-ID'', ''xyz'')] ''/json/version'' []) example_uuid
     = handle example_platform (example_env (Some ''secret'') None (rejecting (JsError ''Error'')))
        (example_request ''GET'' [(''X-Session-ID'', ''xyz'')] ''/json/version'' []) example_uuid"
  using auth_failure_structured
      [of "example_request ''GET'' [] ''/json/version'' [(''apiKey'', ''wrong'')]"
          "example_env (Some ''secret'') None (rejecting (JsError ''Error''))"
          example_platform example_uuid
          "''Invalid or missing API key. Use ?apiKey=YOUR_KEY''"]
    auth_failure_structured
      [of "example_request ''GET'' [(''X-Session-ID'', ''xyz'')] ''/json/version'' []"
          "example_env (Some ''secret'') None (rejecting (JsError ''Error''))"
          example_platform example_uuid _ None None]
  by (simp add: example_defs session_defs checkAuthentication_def)

subsection \<open>The discovery handler\<close>

text \<open>
  Claim C4. When the container's answer to the discovery request is not JSON
  (its content type does not contain \<open>application/json\<close>) and its body contains
  \<open>max concurrent instance count\<close>, the discovery handler answers 429 with a JSON
  body whose \<open>error\<close> is \<open>Too many concurrent browser sessions\<close> and whose
  \<open>details\<close> is the body received. When the body contains neither that phrase
  nor \<open>no Container instance available\<close>, it answers 500 with the text
  \<open>Container initialization failed: \<close> followed by the body. Here \<open>c\<close> is the
  stub the namespace has handed out for the minted identity.
\<close>

theorem capacity_exhaustion_response:
  assumes "BROWSER_CONTAINER e sid = Inr c"
      and "containerFetch c (upstream_of req) req = Inr resp"
      and "\<not> is_json_content resp"
      and "f_text resp = Inr t"
  shows "(str_includes t ''max concurrent instance count'' \<longrightarrow>
            fst (handleJsonVersionRequest P e req sid) =
              Inr \<lparr>status = 429, resp_headers = [(''Content-Type'', ''application/json'')],
                   resp_body = BodyJson (JObject
                     [(''error'', JString ''Too many concurrent browser sessions''),
                      (''message'', JString
                         ''Maximum concurrent container limit reached. Please try again later.''),
                      (''details'', JString t)])\<rparr>)
       \<and> (\<not> str_includes t ''max concurrent instance count''
            \<and> \<not> str_includes t ''no Container instance available'' \<longrightarrow>
            fst (handleJsonVersionRequest P e req sid) =
              Inr \<lparr>status = 500,
                   resp_headers = [(''content-type'', ''text/plain;charset=UTF-8'')],
                   resp_body = BodyText (''Container initialization failed: '' @ t)\<rparr>)"
  using assms
  by (simp add: handleJsonVersionRequest_def Let_def discovery_response_def too_many_sessions_def)

text \<open>
  The theorem on a container that reports its instance limit in plain text, and
  on one that answers with an unrelated plain text.
\<close>

theorem capacity_exhaustion_response_witness:
  "fst (handleJsonVersionRequest example_platform
          (example_env None (Some ''true'')
             (answering 500 [(''content-type'', ''text/plain'')]
                (Inr ''reached your max concurrent instance count'')))
          (example_request ''GET'' [] ''/json/version'' []) example_uuid)
     = Inr \<lparr>status = 429, resp_headers = [(''Content-Type'', ''application/json'')],
            resp_body = BodyJson (JObject
              [(''error'', JString ''Too many concurrent browser sessions''),
               (''message'', JString
                  ''Maximum concurrent container limit reached. Please try again later.''),
               (''details'', JString ''reached your max concurrent instance count'')])\<rparr>
   \<and> fst (handleJsonVersionRequest example_platform
          (example_env None (Some ''true'') (answering 502 [] (Inr ''Bad Gateway'')))
          (example_request ''GET'' [] ''/json/version'' []) example_uuid)
     = Inr \<lparr>status = 500, resp_headers = [(''content-type'', ''text/plain;charset=UTF-8'')],
            resp_body = BodyText ''Container initialization failed: Bad Gateway''\<rparr>"
proof -
  let ?req = "example_request ''GET'' [] ''/json/version'' []"
  let ?busy = "\<lparr>f_status = 500, f_headers = [(''content-type'', ''text/plain'')],
                 f_text = Inr ''reached your max concurrent instance count''\<rparr>"
  let ?bad = "\<lparr>f_status = 502, f_headers = [], f_text = Inr ''Bad Gateway''\<rparr>"
  let ?busy_c = "answering 500 [(''content-type'', ''text/plain'')]
                   (Inr ''reached your max concurrent instance count'')"
  let ?bad_c = "answering 502 [] (Inr ''Bad Gateway'')"
  have busy_stub: "BROWSER_CONTAINER (example_env None (Some ''true'') ?busy_c) example_uuid
                     = Inr ?busy_c"
    and bad_stub: "BROWSER_CONTAINER (example_env None (Some ''true'') ?bad_c) example_uuid
                     = Inr ?bad_c"
    by (simp_all add: example_env_def)
  have busy: "containerFetch ?busy_c (upstream_of ?req) ?req = Inr ?busy"
    by (simp add: example_defs)
  have bad: "containerFetch ?bad_c (upstream_of ?req) ?req = Inr ?bad"
    by (simp add: example_defs)
  have busy_plain: "\<not> is_json_content ?busy"
    by (simp add: is_json_content_def headers_get_def lower_def lower_char_def)
  have bad_plain: "\<not> is_json_content ?bad"
    by (simp add: is_json_content_def headers_get_def)
  have busy_text: "f_text ?busy = Inr ''reached your max concurrent instance count''"
    and bad_text: "f_text ?bad = Inr ''Bad Gateway''"
    by simp_all
  from capacity_exhaustion_response [OF busy_stub busy busy_plain busy_text, of example_platform]
    capacity_exhaustion_response [OF bad_stub bad bad_plain bad_text, of example_platform]
  show ?thesis
    by simp
qed

lemma discovery_response_no_fetch:
  "filter is_fetch (snd (discovery_response P req sid resp)) = []"
  by (auto simp: discovery_response_def split: sum.splits)

lemma handleJsonVersionRequest_caught:
  "BROWSER_CONTAINER e sid = Inr c \<Longrightarrow>
   containerFetch c (upstream_of req) req = Inl (JsError s) \<Longrightarrow>
   fst (handleJsonVersionRequest P e req sid) =
     Inr \<lparr>status = 500, resp_headers = [(''content-type'', ''text/plain;charset=UTF-8'')],
          resp_body = BodyText (''Failed to initialize browser container: '' @ s)\<rparr>"
  "BROWSER_CONTAINER e sid = Inr c \<Longrightarrow>
   containerFetch c (upstream_of req) req = Inr resp \<Longrightarrow>
   fst (discovery_response P req sid resp) = Inl (JsError s) \<Longrightarrow>
   fst (handleJsonVersionRequest P e req sid) =
     Inr \<lparr>status = 500, resp_headers = [(''content-type'', ''text/plain;charset=UTF-8'')],
          resp_body = BodyText (''Failed to initialize browser container: '' @ s)\<rparr>"
  by (simp_all add: handleJsonVersionRequest_def Let_def)

text \<open>
  Claim C6, as amended. Let the namespace have handed out the stub \<open>c\<close> for the
  minted identity. Then whatever is thrown while the request is forwarded and
  the answer processed is caught: a rejected \<open>containerFetch\<close>, a body that
  cannot be read, a JSON body that does not parse, a JSON body that is \<open>null\<close>,
  a debugger URL that does not parse. For the thrown error \<open>s\<close>, the answer is
  the response with status 500 and the plain text
  \<open>Failed to initialize browser container: \<close> followed by \<open>s\<close>. The handler
  then always answers with a response, and on every path the container is
  called exactly once, so nothing is retried.
\<close>

theorem discovery_errors_caught:
  assumes "BROWSER_CONTAINER e sid = Inr c"
  shows
  "(containerFetch c (upstream_of req) req = Inl (JsError s) \<longrightarrow>
      fst (handleJsonVersionRequest P e req sid) =
        Inr \<lparr>status = 500, resp_headers = [(''content-type'', ''text/plain;charset=UTF-8'')],
             resp_body = BodyText (''Failed to initialize browser container: '' @ s)\<rparr>)
   \<and> (containerFetch c (upstream_of req) req = Inr resp
        \<and> f_text resp = Inl (JsError s) \<longrightarrow>
      fst (handleJsonVersionRequest P e req sid) =
        Inr \<lparr>status = 500, resp_headers = [(''content-type'', ''text/plain;charset=UTF-8'')],
             resp_body = BodyText (''Failed to initialize browser container: '' @ s)\<rparr>)
   \<and> (containerFetch c (upstream_of req) req = Inr resp
        \<and> is_json_content resp \<and> f_text resp = Inr t \<and> JSON_parse P t = Inl (JsError s) \<longrightarrow>
      fst (handleJsonVersionRequest P e req sid) =
        Inr \<lparr>status = 500, resp_headers = [(''content-type'', ''text/plain;charset=UTF-8'')],
             resp_body = BodyText (''Failed to initialize browser container: '' @ s)\<rparr>)
   \<and> (containerFetch c (upstream_of req) req = Inr resp
        \<and> is_json_content resp \<and> f_text resp = Inr t \<and> JSON_parse P t = Inr data
        \<and> get_property data ''webSocketDebuggerUrl'' = Inl (JsError s) \<longrightarrow>
      fst (handleJsonVersionRequest P e req sid) =
        Inr \<lparr>status = 500, resp_headers = [(''content-type'', ''text/plain;charset=UTF-8'')],
             resp_body = BodyText (''Failed to initialize browser container: '' @ s)\<rparr>)
   \<and> (containerFetch c (upstream_of req) req = Inr resp
        \<and> is_json_content resp \<and> f_text resp = Inr t \<and> JSON_parse P t = Inr data
        \<and> get_property data ''webSocketDebuggerUrl'' = Inr (Some v) \<and> json_truthy (Some v)
        \<and> new_URL P v = Inl (JsError s) \<longrightarrow>
      fst (handleJsonVersionRequest P e req sid) =
        Inr \<lparr>status = 500, resp_headers = [(''content-type'', ''text/plain;charset=UTF-8'')],
             resp_body = BodyText (''Failed to initialize browser container: '' @ s)\<rparr>)
   \<and> (\<exists>r. fst (handleJsonVersionRequest P e req sid) = Inr r)
   \<and> filter is_fetch (snd (handleJsonVersionRequest P e req sid))
        = [ContainerFetch (upstream_of req)]"
proof -
  let ?answer = "Inr \<lparr>status = 500,
      resp_headers = [(''content-type'', ''text/plain;charset=UTF-8'')],
      resp_body = BodyText (''Failed to initialize browser container: '' @ s)\<rparr>"
  note rejected = handleJsonVersionRequest_caught(1) [OF assms]
  note thrown = handleJsonVersionRequest_caught(2) [OF assms]
  have call: "containerFetch c (upstream_of req) req = Inl (JsError s) \<longrightarrow>
      fst (handleJsonVersionRequest P e req sid) = ?answer"
    using rejected by blast
  have unread: "containerFetch c (upstream_of req) req = Inr resp
        \<and> f_text resp = Inl (JsError s) \<longrightarrow>
      fst (handleJsonVersionRequest P e req sid) = ?answer"
  proof
    assume h: "containerFetch c (upstream_of req) req = Inr resp \<and> f_text resp = Inl (JsError s)"
    then have "fst (discovery_response P req sid resp) = Inl (JsError s)"
      by (simp add: discovery_response_def discovery_json_def f_json_def)
    with h show "fst (handleJsonVersionRequest P e req sid) = ?answer"
      using thrown by blast
  qed
  have unparsed: "containerFetch c (upstream_of req) req = Inr resp
        \<and> is_json_content resp \<and> f_text resp = Inr t \<and> JSON_parse P t = Inl (JsError s) \<longrightarrow>
      fst (handleJsonVersionRequest P e req sid) = ?answer"
  proof
    assume h: "containerFetch c (upstream_of req) req = Inr resp
        \<and> is_json_content resp \<and> f_text resp = Inr t \<and> JSON_parse P t = Inl (JsError s)"
    then have "fst (discovery_response P req sid resp) = Inl (JsError s)"
      by (simp add: discovery_response_def discovery_json_def f_json_def)
    with h show "fst (handleJsonVersionRequest P e req sid) = ?answer"
      using thrown by blast
  qed
  have null: "containerFetch c (upstream_of req) req = Inr resp
        \<and> is_json_content resp \<and> f_text resp = Inr t \<and> JSON_parse P t = Inr data
        \<and> get_property data ''webSocketDebuggerUrl'' = Inl (JsError s) \<longrightarrow>
      fst (handleJsonVersionRequest P e req sid) = ?answer"
  proof
    assume h: "containerFetch c (upstream_of req) req = Inr resp
        \<and> is_json_content resp \<and> f_text resp = Inr t \<and> JSON_parse P t = Inr data
        \<and> get_property data ''webSocketDebuggerUrl'' = Inl (JsError s)"
    then have "fst (discovery_response P req sid resp) = Inl (JsError s)"
      by (simp add: discovery_response_def discovery_json_def f_json_def)
    with h show "fst (handleJsonVersionRequest P e req sid) = ?answer"
      using thrown by blast
  qed
  have no_url: "containerFetch c (upstream_of req) req = Inr resp
        \<and> is_json_content resp \<and> f_text resp = Inr t \<and> JSON_parse P t = Inr data
        \<and> get_property data ''webSocketDebuggerUrl'' = Inr (Some v) \<and> json_truthy (Some v)
        \<and> new_URL P v = Inl (JsError s) \<longrightarrow>
      fst (handleJsonVersionRequest P e req sid) = ?answer"
  proof
    assume h: "containerFetch c (upstream_of req) req = Inr resp
        \<and> is_json_content resp \<and> f_text resp = Inr t \<and> JSON_parse P t = Inr data
        \<and> get_property data ''webSocketDebuggerUrl'' = Inr (Some v) \<and> json_truthy (Some v)
        \<and> new_URL P v = Inl (JsError s)"
    then have "fst (discovery_response P req sid resp) = Inl (JsError s)"
      by (simp add: discovery_response_def discovery_json_def f_json_def)
    with h show "fst (handleJsonVersionRequest P e req sid) = ?answer"
      using thrown by blast
  qed
  have answers: "\<exists>r. fst (handleJsonVersionRequest P e req sid) = Inr r"
    using assms by (simp add: handleJsonVersionRequest_def Let_def split: sum.splits)
  have once: "filter is_fetch (snd (handleJsonVersionRequest P e req sid))
        = [ContainerFetch (upstream_of req)]"
    using assms
    by (simp add: handleJsonVersionRequest_def Let_def discovery_response_no_fetch
        split: sum.splits)
  from call unread unparsed null no_url answers once show ?thesis
    by (intro conjI)
qed

text \<open>
  The theorem on five containers, one for each way to fail: the call is
  rejected, the body cannot be read, the body is not JSON text, the body is
  \<open>null\<close>, the debugger URL is relative.
\<close>

theorem discovery_errors_caught_witness:
  "fst (handleJsonVersionRequest example_platform
          (example_env None (Some ''true'') (rejecting (JsError ''Error: Network connection lost.'')))
          (example_request ''GET'' [] ''/json/version'' []) example_uuid)
     = Inr \<lparr>status = 500, resp_headers = [(''content-type'', ''text/plain;charset=UTF-8'')],
            resp_body = BodyText
              ''Failed to initialize browser container: Error: Network connection lost.''\<rparr>
   \<and> fst (handleJsonVersionRequest example_platform
          (example_env None (Some ''true'')
             (answering 200 [(''content-type'', ''application/json'')]
                (Inl (JsError ''TypeError: Body has already been used.''))))
          (example_request ''GET'' [] ''/json/version'' []) example_uuid)
     = Inr \<lparr>status = 500, resp_headers = [(''content-type'', ''text/plain;charset=UTF-8'')],
            resp_body = BodyText
              ''Failed to initialize browser container: TypeError: Body has already been used.''\<rparr>
   \<and> fst (handleJsonVersionRequest example_platform
          (example_env None (Some ''true'') (chrome ''<html>''))
          (example_request ''GET'' [] ''/json/version'' []) example_uuid)
     = Inr \<lparr>status = 500, resp_headers = [(''content-type'', ''text/plain;charset=UTF-8'')],
            resp_body = BodyText
              ''Failed to initialize browser container: SyntaxError: Unexpected token''\<rparr>
   \<and> fst (handleJsonVersionRequest example_platform
          (example_env None (Some ''true'') (chrome ''null''))
          (example_request ''GET'' [] ''/json/version'' []) example_uuid)
     = Inr \<lparr>status = 500, resp_headers = [(''content-type'', ''text/plain;charset=UTF-8'')],
            resp_body = BodyText
              ''Failed to initialize browser container: TypeError: Cannot read properties of null (reading 'webSocketDebuggerUrl')''\<rparr>
   \<and> fst (handleJsonVersionRequest example_platform
          (example_env None (Some ''true'') (chrome (version_text ''devtools/browser/b0b8a4fb'')))
          (example_request ''GET'' [] ''/json/version'' []) example_uuid)
     = Inr \<lparr>status = 500, resp_headers = [(''content-type'', ''text/plain;charset=UTF-8'')],
            resp_body = BodyText
              ''Failed to initialize browser container: TypeError: Invalid URL''\<rparr>
   \<and> filter is_fetch (snd (handleJsonVersionRequest example_platform
          (example_env None (Some ''true'') (chrome ''null''))
          (example_request ''GET'' [] ''/json/version'' []) example_uuid))
     = [ContainerFetch ''http://127.0.0.1:3000/json/version'']"
proof -
  let ?req = "example_request ''GET'' [] ''/json/version'' []"
  have stub: "BROWSER_CONTAINER (example_env None (Some ''true'') c) example_uuid = Inr c" for c
    by (simp add: example_env_def)
  note caught = discovery_errors_caught [OF stub, where req = ?req and P = example_platform]
  show ?thesis
    using
      caught [where c = "rejecting (JsError ''Error: Network connection lost.'')"
          and s = "''Error: Network connection lost.''"
          and resp = "\<lparr>f_status = 200, f_headers = [], f_text = Inr []\<rparr>"
          and t = "[]" and data = JNull and v = JNull]
      caught [where c = "answering 200 [(''content-type'', ''application/json'')]
                           (Inl (JsError ''TypeError: Body has already been used.''))"
          and s = "''TypeError: Body has already been used.''"
          and resp = "\<lparr>f_status = 200, f_headers = [(''content-type'', ''application/json'')],
                        f_text = Inl (JsError ''TypeError: Body has already been used.'')\<rparr>"
          and t = "[]" and data = JNull and v = JNull]
      caught [where c = "chrome ''<html>''"
          and s = "''SyntaxError: Unexpected token''"
          and resp = "\<lparr>f_status = 200,
                        f_headers = [(''Content-Type'', ''application/json; charset=UTF-8'')],
                        f_text = Inr ''<html>''\<rparr>"
          and t = "''<html>''" and data = JNull and v = JNull]
      caught [where c = "chrome ''null''"
          and s = "''TypeError: Cannot read properties of null (reading 'webSocketDebuggerUrl')''"
          and resp = "\<lparr>f_status = 200,
                        f_headers = [(''Content-Type'', ''application/json; charset=UTF-8'')],
                        f_text = Inr ''null''\<rparr>"
          and t = "''null''" and data = JNull and v = JNull]
      caught [where c = "chrome (version_text ''devtools/browser/b0b8a4fb'')"
          and s = "''TypeError: Invalid URL''"
          and resp = "\<lparr>f_status = 200,
                        f_headers = [(''Content-Type'', ''application/json; charset=UTF-8'')],
                        f_text = Inr (version_text ''devtools/browser/b0b8a4fb'')\<rparr>"
          and t = "version_text ''devtools/browser/b0b8a4fb''"
          and data = "version_json ''devtools/browser/b0b8a4fb''"
          and v = "JString ''devtools/browser/b0b8a4fb''"]
    by (simp add: example_defs is_json_content_def headers_get_def lower_def lower_char_def
        upstream_of_def search_def)
qed

text \<open>
  Claim C6 as stated fails for the first of the steps it names. Where the
  namespace binding is missing, taking the stub throws before the \<open>try\<close> block
  is entered: the handler ends with the thrown value, it returns no response,
  no 500 is built and nothing is logged.
\<close>

theorem stub_error_not_caught_counterexample:
  "BROWSER_CONTAINER unbound_env example_uuid
     = Inl (JsError ''TypeError: Cannot read properties of undefined (reading 'get')'')
   \<and> handleJsonVersionRequest example_platform unbound_env
        (example_request ''GET'' [] ''/json/version'' []) example_uuid
     = (Inl (JsError ''TypeError: Cannot read properties of undefined (reading 'get')''), [])
   \<and> handle example_platform unbound_env
        (example_request ''GET'' [] ''/json/version'' []) example_uuid
     = (Inl (JsError ''TypeError: Cannot read properties of undefined (reading 'get')''), [])"
  by (simp add: example_defs session_defs handle_def gated_discovery_def checkAuthentication_def
      handleJsonVersionRequest_def Let_def)

subsection \<open>The proxy\<close>

lemma headers_get_delete_same: "headers_get (headers_delete hs n) n = None"
  by (simp add: headers_get_def headers_delete_def)

lemma headers_get_delete_other:
  assumes "lower m \<noteq> lower n"
  shows "headers_get (headers_delete hs n) m = headers_get hs m"
proof -
  from assms
  have "filter (\<lambda>e. lower (fst e) = lower m) (filter (\<lambda>e. lower (fst e) \<noteq> lower n) hs)
           = filter (\<lambda>e. lower (fst e) = lower m) hs"
    by (induction hs) auto
  then show ?thesis
    by (simp add: headers_get_def headers_delete_def)
qed

lemma headers_get_append_other:
  "lower k \<noteq> lower m \<Longrightarrow> headers_get (hs @ [(k, v)]) m = headers_get hs m"
  by (simp add: headers_get_def)

lemma headers_has_get: "headers_has hs n = (headers_get hs n \<noteq> None)"
  by (simp add: headers_has_def headers_get_def)

lemma lower_content [simp]:
  "lower ''content-length'' = ''content-length''" "lower ''content-type'' = ''content-type''"
  by (simp_all add: lower_def lower_char_def)

lemma new_Response_frame:
  assumes "new_Response b st hs = Inr out"
  shows "status out = st"
    and "resp_body out = b"
    and "lower n \<noteq> ''content-type'' \<Longrightarrow> headers_get (resp_headers out) n = headers_get hs n"
    and "headers_get hs ''content-type'' = Some v \<Longrightarrow>
         headers_get (resp_headers out) ''content-type'' = Some v"
  using assms
  by (auto simp: new_Response_def headers_has_get headers_get_append_other split: if_splits)

text \<open>
  Claim C7. Take a request with a session identity that is not a WebSocket
  upgrade, the stub \<open>c\<close> handed out for that identity, and the answer \<open>resp\<close> of
  the container. Whenever the proxy returns a response, that response has no
  \<open>content-length\<close> header, it has the status of the container's answer, and
  every other header reads as in the container's answer (a \<open>content-type\<close>
  that the answer lacks is the one header the \<open>Response\<close> constructor may add).
  The proxy does return a response for every answer whose status is in 200..599
  and whose body can be read, the answers 204, 205 and 304 among them, whose
  body is empty.
\<close>

theorem proxied_response_frame:
  assumes "extractSessionId req = Some sid" and "sid \<noteq> []"
      and "headers_get (headers req) ''Upgrade'' \<noteq> Some ''websocket''"
      and "BROWSER_CONTAINER e sid = Inr c"
      and "containerFetch c (upstream_of req) req = Inr resp"
  shows "(\<forall>out. fst (handle P e req uuid) = Inr out \<longrightarrow>
            headers_get (resp_headers out) ''content-length'' = None
          \<and> status out = f_status resp
          \<and> (\<forall>n. lower n \<noteq> ''content-length'' \<and> lower n \<noteq> ''content-type'' \<longrightarrow>
                 headers_get (resp_headers out) n = headers_get (f_headers resp) n)
          \<and> (\<forall>v. headers_get (f_headers resp) ''content-type'' = Some v \<longrightarrow>
                 headers_get (resp_headers out) ''content-type'' = Some v))
       \<and> (200 \<le> f_status resp \<and> f_status resp \<le> 599
            \<and> (\<exists>t. f_text resp = Inr t
                   \<and> (f_status resp = 204 \<or> f_status resp = 205 \<or> f_status resp = 304
                        \<longrightarrow> t = [])) \<longrightarrow>
          (\<exists>out. fst (handle P e req uuid) = Inr out))"
proof (intro conjI allI impI)
  fix out
  assume out: "fst (handle P e req uuid) = Inr out"
  with assms obtain t where
    nr: "new_Response (BodyText (rewriteHost (url req) t)) (f_status resp)
           (headers_delete (f_headers resp) ''content-length'') = Inr out"
    by (auto simp: handle_with_session containerFetchWithRewrite_def Let_def split: sum.splits)
  show "headers_get (resp_headers out) ''content-length'' = None"
    using new_Response_frame(3) [OF nr, of "''content-length''"]
    by (simp add: headers_get_delete_same)
  show "status out = f_status resp"
    using new_Response_frame(1) [OF nr] .
  show "headers_get (resp_headers out) n = headers_get (f_headers resp) n"
    if "lower n \<noteq> ''content-length'' \<and> lower n \<noteq> ''content-type''" for n
    using that new_Response_frame(3) [OF nr, of n]
    by (simp add: headers_get_delete_other)
  show "headers_get (resp_headers out) ''content-type'' = Some v"
    if "headers_get (f_headers resp) ''content-type'' = Some v" for v
    using that new_Response_frame(4) [OF nr, of v]
    by (simp add: headers_get_delete_other)
next
  assume ok: "200 \<le> f_status resp \<and> f_status resp \<le> 599
            \<and> (\<exists>t. f_text resp = Inr t
                   \<and> (f_status resp = 204 \<or> f_status resp = 205 \<or> f_status resp = 304
                        \<longrightarrow> t = []))"
  have empty: "rewriteHost (url req) [] = []"
    by (simp add: rewriteHost_def replace_from.simps loopback_def)
  from ok assms show "\<exists>out. fst (handle P e req uuid) = Inr out"
    by (auto simp: handle_with_session containerFetchWithRewrite_def Let_def new_Response_def
        empty)
qed

text \<open>
  The theorem on a page request with the session \<open>xyz\<close>, answered by the
  container with three headers, one of them the content length; and on the same
  request answered with 304 and no body.
\<close>

theorem proxied_response_frame_witness:
  "(\<exists>out. fst (handle example_platform
            (example_env (Some ''secret'') None
               (answering 200 [(''Content-Type'', ''text/html''), (''Content-Length'', ''26''),
                               (''Cache-Control'', ''no-store'')]
                  (Inr ''http://127.0.0.1:3000/page'')))
            (example_request ''GET'' [(''X-Session-ID'', ''xyz'')] ''/json/list'' [])
            example_uuid) = Inr out
        \<and> headers_get (resp_headers out) ''content-length'' = None
        \<and> status out = 200
        \<and> headers_get (resp_headers out) ''cache-control'' = Some ''no-store''
        \<and> headers_get (resp_headers out) ''content-type'' = Some ''text/html'')
   \<and> (\<exists>out. fst (handle example_platform
            (example_env (Some ''secret'') None
               (answering 304 [(''ETag'', ''v1''), (''Content-Length'', ''0'')] (Inr [])))
            (example_request ''GET'' [(''X-Session-ID'', ''xyz'')] ''/json/list'' [])
            example_uuid) = Inr out
        \<and> headers_get (resp_headers out) ''content-length'' = None
        \<and> status out = 304
        \<and> headers_get (resp_headers out) ''etag'' = Some ''v1'')"
proof -
  let ?req = "example_request ''GET'' [(''X-Session-ID'', ''xyz'')] ''/json/list'' []"
  let ?hs = "[(''Content-Type'', ''text/html''), (''Content-Length'', ''26''),
              (''Cache-Control'', ''no-store'')]"
  let ?resp = "\<lparr>f_status = 200, f_headers = ?hs, f_text = Inr ''http://127.0.0.1:3000/page''\<rparr>"
  let ?c = "answering 200 ?hs (Inr ''http://127.0.0.1:3000/page'')"
  let ?hs' = "[(''ETag'', ''v1''), (''Content-Length'', ''0'')]"
  let ?resp' = "\<lparr>f_status = 304, f_headers = ?hs', f_text = Inr []\<rparr>"
  let ?c' = "answering 304 ?hs' (Inr [])"
  have sid: "extractSessionId ?req = Some ''xyz''" and ne: "''xyz'' \<noteq> []"
    by (simp_all add: example_defs session_defs)
  have up: "headers_get (headers ?req) ''Upgrade'' \<noteq> Some ''websocket''"
    by (simp add: example_defs headers_get_def lower_def lower_char_def)
  have stub: "BROWSER_CONTAINER (example_env (Some ''secret'') None c) ''xyz'' = Inr c" for c
    by (simp add: example_env_def)
  have fetched: "containerFetch ?c (upstream_of ?req) ?req = Inr ?resp"
    and fetched': "containerFetch ?c' (upstream_of ?req) ?req = Inr ?resp'"
    by (simp_all add: example_defs)
  note frame = proxied_response_frame [OF sid ne up stub fetched, of example_platform example_uuid]
  note frame' = proxied_response_frame [OF sid ne up stub fetched', of example_platform example_uuid]
  from frame obtain out where
    out: "fst (handle example_platform (example_env (Some ''secret'') None ?c) ?req example_uuid)
            = Inr out"
    by auto
  with frame have "headers_get (resp_headers out) ''content-length'' = None"
    and "status out = f_status ?resp"
    and "headers_get (resp_headers out) ''cache-control'' = headers_get (f_headers ?resp) ''cache-control''"
    and "headers_get (f_headers ?resp) ''content-type'' = Some ''text/html'' \<longrightarrow>
         headers_get (resp_headers out) ''content-type'' = Some ''text/html''"
    by (simp_all add: lower_def lower_char_def)
  with out have first: "\<exists>out. fst (handle example_platform
       (example_env (Some ''secret'') None ?c) ?req example_uuid) = Inr out
        \<and> headers_get (resp_headers out) ''content-length'' = None
        \<and> status out = 200
        \<and> headers_get (resp_headers out) ''cache-control'' = Some ''no-store''
        \<and> headers_get (resp_headers out) ''content-type'' = Some ''text/html''"
    by (simp add: headers_get_def lower_def lower_char_def)
  from frame' obtain out' where
    out': "fst (handle example_platform (example_env (Some ''secret'') None ?c') ?req example_uuid)
            = Inr out'"
    by auto
  with frame' have "headers_get (resp_headers out') ''content-length'' = None"
    and "status out' = f_status ?resp'"
    and "headers_get (resp_headers out') ''etag'' = headers_get (f_headers ?resp') ''etag''"
    by (simp_all add: lower_def lower_char_def)
  with out' have "\<exists>out. fst (handle example_platform
       (example_env (Some ''secret'') None ?c') ?req example_uuid) = Inr out
        \<and> headers_get (resp_headers out) ''content-length'' = None
        \<and> status out = 304
        \<and> headers_get (resp_headers out) ''etag'' = Some ''v1''"
    by (simp add: headers_get_def lower_def lower_char_def)
  with first show ?thesis by blast
qed

subsection \<open>Rewriting the debugger URL\<close>

lemma GetSubstitution_literal:
  "CHR ''$'' \<notin> set rep \<Longrightarrow> GetSubstitution m b a rep = rep"
  by (induction m b a rep rule: GetSubstitution.induct) auto

lemma startsWith_append: "startsWith (p @ r) p"
  by (induction p) auto

lemma startsWith_decompose: "startsWith s p \<Longrightarrow> s = p @ drop (length p) s"
  by (induction s p rule: startsWith.induct) auto

lemma startsWith_set: "startsWith s p \<Longrightarrow> set p \<subseteq> set s"
  by (induction s p rule: startsWith.induct) auto

lemma startsWith_cut:
  "startsWith (a @ c # r) p \<Longrightarrow> c \<notin> set p \<Longrightarrow> startsWith a p"
proof (induction a arbitrary: p)
  case Nil
  then show ?case by (cases p) auto
next
  case (Cons x a)
  then show ?case by (cases p) auto
qed

lemma length_loopback: "length loopback = 14"
  by (simp add: loopback_def)

text \<open>
  A replacement without \<open>$\<close> is inserted as it is, so the part of the subject
  already passed does not matter.
\<close>

lemma replace_from_before:
  assumes "CHR ''$'' \<notin> set rep"
  shows "replace_from rep b s = replace_from rep [] s"
proof (induction "length s" arbitrary: s b rule: less_induct)
  case less
  show ?case
  proof (cases "startsWith s loopback")
    case True
    then have "s \<noteq> []" by (auto simp: loopback_def)
    then have shorter: "length (drop (length loopback) s) < length s"
      by (simp add: length_loopback)
    have "replace_from rep b s = rep @ replace_from rep [] (drop (length loopback) s)"
      using True assms less [OF shorter, of "b @ loopback"]
      by (subst replace_from.simps) (simp add: GetSubstitution_literal)
    moreover have "replace_from rep [] s = rep @ replace_from rep [] (drop (length loopback) s)"
      using True assms less [OF shorter, of "loopback"]
      by (subst replace_from.simps) (simp add: GetSubstitution_literal)
    ultimately show ?thesis by simp
  next
    case False
    show ?thesis
    proof (cases s)
      case Nil
      then show ?thesis by (simp add: replace_from.simps loopback_def)
    next
      case (Cons c t)
      have "replace_from rep b s = c # replace_from rep [] t"
        using False Cons less [of t "b @ [c]"]
        by (subst replace_from.simps) simp
      moreover have "replace_from rep [] s = c # replace_from rep [] t"
        using False Cons less [of t "[c]"]
        by (subst replace_from.simps) simp
      ultimately show ?thesis by simp
    qed
  qed
qed

lemma replace_from_Nil: "replace_from rep b [] = []"
  by (simp add: replace_from.simps loopback_def)

lemma replace_from_loopback:
  assumes "CHR ''$'' \<notin> set rep"
  shows "replace_from rep [] (loopback @ r) = rep @ replace_from rep [] r"
  using assms replace_from_before [OF assms, of loopback r]
  by (subst replace_from.simps) (simp add: startsWith_append GetSubstitution_literal)

lemma replace_from_Cons:
  assumes "CHR ''$'' \<notin> set rep" and "\<not> startsWith (c # t) loopback"
  shows "replace_from rep [] (c # t) = c # replace_from rep [] t"
  using assms replace_from_before [OF assms(1), of "[c]" t]
  by (subst replace_from.simps) simp

text \<open>No match runs across a character that the loopback address does not contain.\<close>

lemma replace_from_split:
  assumes "CHR ''$'' \<notin> set rep" and "c \<notin> set loopback"
  shows "replace_from rep [] (a @ c # r)
           = replace_from rep [] a @ c # replace_from rep [] r"
proof (induction "length a" arbitrary: a rule: less_induct)
  case less
  show ?case
  proof (cases "startsWith a loopback")
    case True
    then obtain a' where a: "a = loopback @ a'"
      using startsWith_decompose by blast
    then have "length a' < length a" by (simp add: length_loopback)
    from less [OF this] a show ?thesis
      by (simp add: replace_from_loopback [OF assms(1)])
  next
    case False
    then have no: "\<not> startsWith (a @ c # r) loopback"
      using startsWith_cut assms(2) by blast
    show ?thesis
    proof (cases a)
      case Nil
      with no show ?thesis
        by (simp add: replace_from_Cons [OF assms(1)] replace_from_Nil)
    next
      case (Cons x a')
      with no False less [of a'] show ?thesis
        by (simp add: replace_from_Cons [OF assms(1)])
    qed
  qed
qed

lemma replace_from_unchanged:
  assumes "CHR ''$'' \<notin> set rep" and "CHR '':'' \<notin> set s"
  shows "replace_from rep [] s = s"
  using assms(2)
proof (induction s)
  case Nil
  show ?case by (simp add: replace_from_Nil)
next
  case (Cons c t)
  have "\<not> startsWith (c # t) loopback"
  proof
    assume "startsWith (c # t) loopback"
    from startsWith_set [OF this] Cons.prems show False
      by (auto simp: loopback_def)
  qed
  with Cons show ?case
    by (simp add: replace_from_Cons [OF assms(1)])
qed

lemma replace_from_append:
  assumes "CHR ''$'' \<notin> set rep" and "a = [] \<or> last a \<notin> set loopback"
  shows "replace_from rep [] (a @ r) = replace_from rep [] a @ replace_from rep [] r"
proof (cases "a = []")
  case True
  then show ?thesis by (simp add: replace_from_Nil)
next
  case False
  with assms(2) have l: "last a \<notin> set loopback" by simp
  from False have a: "a = butlast a @ [last a]" by simp
  have "replace_from rep [] (a @ r) = replace_from rep [] (butlast a @ last a # r)"
    by (subst a) simp
  also have "\<dots> = replace_from rep [] (butlast a) @ last a # replace_from rep [] r"
    by (rule replace_from_split [OF assms(1) l])
  finally have whole: "replace_from rep [] (a @ r)
      = replace_from rep [] (butlast a) @ last a # replace_from rep [] r" .
  have "replace_from rep [] a = replace_from rep [] (butlast a) @ [last a]"
    using replace_from_split [OF assms(1) l, of "butlast a" "[]"] a
    by (simp add: replace_from_Nil)
  with whole show ?thesis by simp
qed

text \<open>The serialised query has no colon, so the rewriting leaves it alone.\<close>

lemma hex_digit_no_colon: "hex_digit n \<noteq> CHR '':''"
proof -
  have "hex_digit n \<in> set ''0123456789ABCDEF''"
    unfolding hex_digit_def by (rule nth_mem) simp
  then show ?thesis by auto
qed

lemma urlencoded_byte_no_colon: "CHR '':'' \<notin> set (urlencoded_byte c)"
  using hex_digit_no_colon [of "of_char c div 16"] hex_digit_no_colon [of "of_char c mod 16"]
  by (auto simp: urlencoded_byte_def percent_encode_def urlencoded_safe_def)

lemma urlencoded_string_no_colon: "CHR '':'' \<notin> set (urlencoded_string s)"
  by (simp add: urlencoded_string_def urlencoded_byte_no_colon)

lemma join_no_char:
  "c \<notin> set sep \<Longrightarrow> (\<And>x. x \<in> set xs \<Longrightarrow> c \<notin> set x) \<Longrightarrow> c \<notin> set (join sep xs)"
  by (induction sep xs rule: join.induct) auto

lemma urlencoded_serialize_no_colon: "CHR '':'' \<notin> set (urlencoded_serialize ps)"
  unfolding urlencoded_serialize_def
  by (rule join_no_char) (auto simp: urlencoded_string_no_colon)

lemma join_nonempty: "x \<noteq> [] \<Longrightarrow> join sep (x # xs) \<noteq> []"
  by (cases xs) auto

lemma searchParams_set_nonempty: "searchParams_set ps n v \<noteq> []"
  by (cases ps) auto

lemma urlencoded_serialize_nonempty: "ps \<noteq> [] \<Longrightarrow> urlencoded_serialize ps \<noteq> []"
  by (cases ps) (auto simp: urlencoded_serialize_def join_nonempty)

lemma searchParams_get_set: "searchParams_get (searchParams_set ps n v) n = Some v"
  by (induction ps) (auto simp: searchParams_get_def)

lemma credentials_end: "credentials u = [] \<or> last (credentials u) \<notin> set loopback"
  by (simp add: credentials_def loopback_def)

lemma rewritten_debugger_url:
  assumes host: "url_host w = Some loopback"
      and dollar: "CHR ''$'' \<notin> set (host u)"
  shows "rewriteHost u (toString (url_searchParams_set w ''sessionId'' sid)) =
           rewriteHost u (protocol w) @ ''//'' @ rewriteHost u (credentials w) @ host u
           @ rewriteHost u (pathname w) @ ''?''
           @ urlencoded_serialize (searchParams_set (searchParams w) ''sessionId'' sid)
           @ (case fragment w of None \<Rightarrow> [] | Some f \<Rightarrow> CHR ''#'' # rewriteHost u f)"
proof -
  let ?rw = "replace_from (host u) []"
  let ?q = "urlencoded_serialize (searchParams_set (searchParams w) ''sessionId'' sid)"
  let ?frag = "case fragment w of None \<Rightarrow> [] | Some f \<Rightarrow> CHR ''#'' # f"
  have q: "?q \<noteq> []"
    by (simp add: urlencoded_serialize_nonempty searchParams_set_nonempty)
  have str: "toString (url_searchParams_set w ''sessionId'' sid)
     = protocol w @ CHR ''/'' # ([] @ CHR ''/'' # (credentials w @ (loopback @ (pathname w @ CHR ''?'' # (?q @ ?frag)))))"
    using host q by (simp add: toString_def url_searchParams_set_def Let_def credentials_def)
  have tail: "?rw (?q @ ?frag) = ?q @ (case fragment w of None \<Rightarrow> [] | Some f \<Rightarrow> CHR ''#'' # ?rw f)"
  proof (cases "fragment w")
    case None
    then show ?thesis
      by (simp add: replace_from_unchanged [OF dollar urlencoded_serialize_no_colon])
  next
    case (Some f)
    then show ?thesis
      by (simp add: replace_from_split [OF dollar] loopback_def
          replace_from_unchanged [OF dollar urlencoded_serialize_no_colon])
  qed
  have slash: "CHR ''/'' \<notin> set loopback" and qmark: "CHR ''?'' \<notin> set loopback"
    by (simp_all add: loopback_def)
  let ?X4 = "pathname w @ CHR ''?'' # (?q @ ?frag)"
  let ?X3 = "loopback @ ?X4"
  let ?X2 = "credentials w @ ?X3"
  let ?X1 = "[] @ CHR ''/'' # ?X2"
  have "?rw (protocol w @ CHR ''/'' # ?X1) = ?rw (protocol w) @ CHR ''/'' # ?rw ?X1"
    by (rule replace_from_split [OF dollar slash])
  moreover have "?rw ?X1 = CHR ''/'' # ?rw ?X2"
    using replace_from_split [OF dollar slash, of "[]" ?X2] by (simp add: replace_from_Nil)
  moreover have "?rw ?X2 = ?rw (credentials w) @ ?rw ?X3"
    by (rule replace_from_append [OF dollar credentials_end])
  moreover have "?rw ?X3 = host u @ ?rw ?X4"
    by (rule replace_from_loopback [OF dollar])
  moreover have "?rw ?X4 = ?rw (pathname w) @ CHR ''?'' # ?rw (?q @ ?frag)"
    by (rule replace_from_split [OF dollar qmark])
  ultimately have "?rw (toString (url_searchParams_set w ''sessionId'' sid))
     = ?rw (protocol w) @ ''//'' @ ?rw (credentials w) @ host u @ ?rw (pathname w) @ ''?''
        @ ?rw (?q @ ?frag)"
    unfolding str by simp
  with tail show ?thesis
    by (simp add: rewriteHost_def split: option.splits)
qed

lemma map_of_replace_other:
  "k \<noteq> name \<Longrightarrow> map_of (map (\<lambda>e. if fst e = name then (name, x) else e) fs) k = map_of fs k"
  by (induction fs) auto

lemma map_of_replace_same:
  "map_of fs name = Some v \<Longrightarrow>
   map_of (map (\<lambda>e. if fst e = name then (name, x) else e) fs) name = Some x"
  by (induction fs) (auto split: if_splits)

text \<open>
  Claim C3, as amended. Take a discovery request for which the namespace has
  handed out the stub \<open>c\<close> of the minted identity and whose container answers with
  JSON, an object whose member \<open>webSocketDebuggerUrl\<close> is truthy and parses as a
  URL, and let the host of that URL be the loopback address \<open>127.0.0.1:3000\<close>
  and the host of the request contain no \<open>$\<close>. Then the handler answers 200 with
  the same object, in which \<open>webSocketDebuggerUrl\<close> is the text of a URL with
  the host of the request in place of the loopback address, and with the query
  that serialises the parameters of the debugger URL after \<open>sessionId\<close> has
  been set to the minted identity; the other members are unchanged.
\<close>

theorem debugger_url_rewritten:
  assumes stub: "BROWSER_CONTAINER e sid = Inr c"
      and fetch: "containerFetch c (upstream_of req) req = Inr resp"
      and json: "is_json_content resp" "f_text resp = Inr t" "JSON_parse P t = Inr (JObject fs)"
      and field: "map_of fs ''webSocketDebuggerUrl'' = Some v" "json_truthy (Some v)"
      and parsed: "new_URL P v = Inr wsUrl"
      and loop: "url_host wsUrl = Some ''127.0.0.1:3000''"
      and dollar: "CHR ''$'' \<notin> set (host (url req))"
  shows "\<exists>fs'. fst (handleJsonVersionRequest P e req sid) =
           Inr \<lparr>status = 200, resp_headers = [(''content-type'', ''application/json'')],
                resp_body = BodyJson (JObject fs')\<rparr>
         \<and> (\<forall>k. map_of fs' k =
               (if k = ''webSocketDebuggerUrl'' then
                  Some (JString
                    (rewriteHost (url req) (protocol wsUrl) @ ''//''
                     @ rewriteHost (url req) (credentials wsUrl)
                     @ host (url req)
                     @ rewriteHost (url req) (pathname wsUrl) @ ''?''
                     @ urlencoded_serialize
                         (searchParams_set (searchParams wsUrl) ''sessionId'' sid)
                     @ (case fragment wsUrl of None \<Rightarrow> []
                        | Some f \<Rightarrow> CHR ''#'' # rewriteHost (url req) f)))
                else map_of fs k))
         \<and> searchParams_get (searchParams_set (searchParams wsUrl) ''sessionId'' sid)
               ''sessionId'' = Some sid"
proof -
  let ?s = "rewriteHost (url req) (protocol wsUrl) @ ''//''
             @ rewriteHost (url req) (credentials wsUrl)
             @ host (url req)
             @ rewriteHost (url req) (pathname wsUrl) @ ''?''
             @ urlencoded_serialize (searchParams_set (searchParams wsUrl) ''sessionId'' sid)
             @ (case fragment wsUrl of None \<Rightarrow> []
                | Some f \<Rightarrow> CHR ''#'' # rewriteHost (url req) f)"
  let ?fs = "map (\<lambda>e. if fst e = ''webSocketDebuggerUrl''
                        then (''webSocketDebuggerUrl'', JString ?s) else e) fs"
  from loop have "url_host wsUrl = Some loopback"
    by (simp add: loopback_def)
  then have s: "rewriteHost (url req) (toString (url_searchParams_set wsUrl ''sessionId'' sid)) = ?s"
    using dollar by (rule rewritten_debugger_url)
  have "discovery_json P req sid resp = Response_json (JObject ?fs) 200"
    using json field parsed
    by (simp add: discovery_json_def f_json_def s)
  with stub fetch json(1) have result: "fst (handleJsonVersionRequest P e req sid) =
      Inr \<lparr>status = 200, resp_headers = [(''content-type'', ''application/json'')],
           resp_body = BodyJson (JObject ?fs)\<rparr>"
    by (simp add: handleJsonVersionRequest_def discovery_response_def Let_def)
  have lookup: "map_of ?fs k = (if k = ''webSocketDebuggerUrl'' then Some (JString ?s)
                                else map_of fs k)" for k
    by (simp add: map_of_replace_same [OF field(1)] map_of_replace_other)
  show ?thesis
  proof (intro exI [of _ ?fs] conjI allI)
    show "fst (handleJsonVersionRequest P e req sid) =
      Inr \<lparr>status = 200, resp_headers = [(''content-type'', ''application/json'')],
           resp_body = BodyJson (JObject ?fs)\<rparr>"
      by (rule result)
    show "map_of ?fs k = (if k = ''webSocketDebuggerUrl'' then Some (JString ?s)
                                else map_of fs k)" for k
      by (rule lookup)
    show "searchParams_get (searchParams_set (searchParams wsUrl) ''sessionId'' sid)
               ''sessionId'' = Some sid"
      by (rule searchParams_get_set)
  qed
qed

lemmas discovery_defs = handleJsonVersionRequest_def upstream_of_def search_def
  discovery_response_def is_json_content_def discovery_json_def f_json_def rewriteHost_def
  host_def toString_def url_searchParams_set_def urlencoded_serialize_def urlencoded_string_def
  urlencoded_byte_def urlencoded_safe_def credentials_def loopback_def replace_from.simps
  headers_get_def lower_def lower_char_def Let_def

text \<open>
  The theorem on a Chromium that names its socket at the loopback address: the
  URL returned is at \<open>browser.example.com\<close> and carries the minted identity.
\<close>

theorem debugger_url_rewritten_witness:
  "\<exists>fs'. fst (handleJsonVersionRequest example_platform
            (example_env None (Some ''true'')
               (chrome (version_text ''ws://127.0.0.1:3000/devtools/browser/b0b8a4fb'')))
            (example_request ''GET'' [] ''/json/version'' []) example_uuid)
          = Inr \<lparr>status = 200, resp_headers = [(''content-type'', ''application/json'')],
                 resp_body = BodyJson (JObject fs')\<rparr>
        \<and> map_of fs' ''webSocketDebuggerUrl'' = Some (JString
             ''ws://browser.example.com/devtools/browser/b0b8a4fb?sessionId=123e4567-e89b-42d3-a456-426614174000'')
        \<and> map_of fs' ''Browser'' = Some (JString ''Chrome/120.0.0.0'')"
proof -
  let ?ws = "''ws://127.0.0.1:3000/devtools/browser/b0b8a4fb''"
  let ?req = "example_request ''GET'' [] ''/json/version'' []"
  let ?e = "example_env None (Some ''true'') (chrome (version_text ?ws))"
  let ?resp = "\<lparr>f_status = 200,
                 f_headers = [(''Content-Type'', ''application/json; charset=UTF-8'')],
                 f_text = Inr (version_text ?ws)\<rparr>"
  let ?fs = "[(''Browser'', JString ''Chrome/120.0.0.0''), (''webSocketDebuggerUrl'', JString ?ws)]"
  have stub: "BROWSER_CONTAINER ?e example_uuid = Inr (chrome (version_text ?ws))"
    by (simp add: example_env_def)
  have fetch: "containerFetch (chrome (version_text ?ws)) (upstream_of ?req) ?req = Inr ?resp"
    by (simp add: example_defs)
  have json: "is_json_content ?resp" "f_text ?resp = Inr (version_text ?ws)"
    "JSON_parse example_platform (version_text ?ws) = Inr (JObject ?fs)"
    by (simp_all add: example_defs is_json_content_def headers_get_def lower_def lower_char_def)
  have field: "map_of ?fs ''webSocketDebuggerUrl'' = Some (JString ?ws)"
    "json_truthy (Some (JString ?ws))"
    by simp_all
  have parsed: "new_URL example_platform (JString ?ws) = Inr (debugger_url ''127.0.0.1:3000'')"
    by (simp add: example_defs)
  have loop: "url_host (debugger_url ''127.0.0.1:3000'') = Some ''127.0.0.1:3000''"
    by (simp add: debugger_url_def)
  have dollar: "CHR ''$'' \<notin> set (host (url ?req))"
    by (simp add: example_defs host_def)
  from debugger_url_rewritten [OF stub fetch json field parsed loop dollar]
  obtain fs' where
    result: "fst (handleJsonVersionRequest example_platform ?e ?req example_uuid)
       = Inr \<lparr>status = 200, resp_headers = [(''content-type'', ''application/json'')],
              resp_body = BodyJson (JObject fs')\<rparr>"
    and members: "\<And>k. map_of fs' k =
               (if k = ''webSocketDebuggerUrl'' then
                  Some (JString
                    (rewriteHost (url ?req) (protocol (debugger_url ''127.0.0.1:3000'')) @ ''//''
                     @ rewriteHost (url ?req) (credentials (debugger_url ''127.0.0.1:3000''))
                     @ host (url ?req)
                     @ rewriteHost (url ?req) (pathname (debugger_url ''127.0.0.1:3000'')) @ ''?''
                     @ urlencoded_serialize
                         (searchParams_set (searchParams (debugger_url ''127.0.0.1:3000''))
                            ''sessionId'' example_uuid)
                     @ (case fragment (debugger_url ''127.0.0.1:3000'') of None \<Rightarrow> []
                        | Some f \<Rightarrow> CHR ''#'' # rewriteHost (url ?req) f)))
                else map_of ?fs k)"
    by blast
  have "map_of fs' ''webSocketDebuggerUrl'' = Some (JString
             ''ws://browser.example.com/devtools/browser/b0b8a4fb?sessionId=123e4567-e89b-42d3-a456-426614174000'')"
    by (simp add: members example_defs discovery_defs)
  moreover have "map_of fs' ''Browser'' = Some (JString ''Chrome/120.0.0.0'')"
    by (simp add: members)
  ultimately show ?thesis
    using result by blast
qed

text \<open>
  Claim C3 as stated fails: a Chromium that names its socket at
  \<open>localhost:3000\<close> answers a successful discovery request, the payload has the
  member, and the URL returned with status 200 still has the host
  \<open>localhost:3000\<close>, while the request came to \<open>browser.example.com\<close>.
\<close>

theorem debugger_url_other_host_counterexample:
  "fst (handleJsonVersionRequest example_platform
          (example_env None (Some ''true'')
             (chrome (version_text ''ws://localhost:3000/devtools/browser/b0b8a4fb'')))
          (example_request ''GET'' [] ''/json/version'' []) example_uuid)
     = Inr \<lparr>status = 200, resp_headers = [(''content-type'', ''application/json'')],
            resp_body = BodyJson (JObject
              [(''Browser'', JString ''Chrome/120.0.0.0''),
               (''webSocketDebuggerUrl'', JString
                  ''ws://localhost:3000/devtools/browser/b0b8a4fb?sessionId=123e4567-e89b-42d3-a456-426614174000'')])\<rparr>
   \<and> toString (url_searchParams_set (debugger_url ''localhost:3000'') ''sessionId'' example_uuid)
     = ''ws://localhost:3000/devtools/browser/b0b8a4fb?sessionId=123e4567-e89b-42d3-a456-426614174000''
   \<and> host (url_searchParams_set (debugger_url ''localhost:3000'') ''sessionId'' example_uuid)
     = ''localhost:3000''
   \<and> host (url (example_request ''GET'' [] ''/json/version'' [])) = ''browser.example.com''"
  by (simp add: example_defs discovery_defs)

end
